theory Spec2Isabelle
  imports Complex_Main
begin

section \<open>The paste controller of the pastebin backend\<close>

text \<open>
  The controller (\<^verbatim>\<open>paste.controller.js\<close>) is a set of Express handlers over two
  Supabase services: the table \<^verbatim>\<open>pastes\<close> and the storage bucket \<^verbatim>\<open>pastes\<close>.
  Each handler is embedded as a function from the environment of one request
  and the state of the two services to the response, the new state and the
  service calls it issued, in order.
\<close>

subsection \<open>Rows, services and responses\<close>

type_synonym bytes = "nat list"

text \<open>
  A row of the table \<^verbatim>\<open>pastes\<close>. Timestamps are milliseconds since the epoch, the
  value a JavaScript \<^verbatim>\<open>Date\<close> holds; a nullable column is an option, \<open>None\<close> for
  \<^verbatim>\<open>null\<close>. The counters are integer columns, far below \<open>2^53\<close>, where the
  arithmetic of JavaScript numbers is exact.
\<close>

record paste =
  slug :: string
  user_id :: string
  filename :: string
  mimetype :: string
  storage_path :: string
  password_hash :: "string option"
  expires_at :: "int option"
  max_views :: "int option"
  max_downloads :: "int option"
  view_count :: int
  download_count :: int
  created_at :: int

text \<open>
  The table is a list of rows (nothing under \<^verbatim>\<open>src/\<close> declares a uniqueness
  constraint on \<^verbatim>\<open>slug\<close>), the bucket an association list from paths to objects.
\<close>

record world =
  pastes_table :: "paste list"
  pastes_bucket :: "(string \<times> bytes) list"

text \<open>
  A Supabase call resolves to \<^verbatim>\<open>{ data, error }\<close>: with the data, or with
  \<^verbatim>\<open>error\<close> set and \<^verbatim>\<open>data: null\<close>; or the awaited promise rejects, which
  throws into the handler's \<^verbatim>\<open>catch\<close>.
\<close>

datatype reply = Resolves | ResolvesError | Rejects

datatype call =
    Select string
  | Update string string int
  | Insert string
  | Delete string
  | StorageUpload string
  | StorageDownload string
  | StorageRemove string

text \<open>
  What a handler's \<^verbatim>\<open>catch\<close> receives: the rejection of a service call, the
  \<^verbatim>\<open>TypeError\<close> of a method call on \<^verbatim>\<open>null\<close>, or the \<^verbatim>\<open>TypeError\<close> with code
  \<^verbatim>\<open>ERR_INVALID_CHAR\<close> that \<^verbatim>\<open>res.setHeader\<close> throws for the named header.
\<close>

datatype thrown = Rejected call | TypeError | InvalidChar string

datatype jval =
    JNull
  | JBool bool
  | JNum int
  | JStr string
  | JBase64 bytes
  | JObj "(string \<times> jval) list"

text \<open>
  \<open>Json c b\<close> is \<^verbatim>\<open>res.status(c).json(b)\<close> (status 200 when the handler sets
  none), \<open>Send h buf\<close> is \<^verbatim>\<open>res.send(buf)\<close> after the headers \<open>h\<close> were set, and
  \<open>Next err\<close> is \<^verbatim>\<open>next(err)\<close> from the \<^verbatim>\<open>catch\<close> block.
\<close>

datatype response =
    Json nat "(string \<times> jval) list"
  | Send "(string \<times> string) list" bytes
  | Next thrown

text \<open>
  A JavaScript number: \<^verbatim>\<open>NaN\<close>, an infinity, or a finite double, which is a
  rational. The sign of zero is not kept; no comparison of the handlers reads it.
\<close>

datatype jsnum = NaN | Num rat | PosInfinity | NegInfinity

text \<open>
  The object \<^verbatim>\<open>createPaste\<close> passes to \<^verbatim>\<open>insert\<close>. \<^verbatim>\<open>expires_at\<close> is a \<^verbatim>\<open>Date\<close>:
  its time value, or \<open>None\<close> for an Invalid Date.
\<close>

record new_paste =
  new_slug :: string
  new_user_id :: string
  new_filename :: string
  new_mimetype :: string
  new_storage_path :: string
  new_password_hash :: "string option"
  new_expires_at :: "int option"
  new_max_views :: "jsnum option"
  new_max_downloads :: "jsnum option"

text \<open>The uploaded file, \<^verbatim>\<open>req.file\<close> as multer leaves it.\<close>

record upload_file =
  originalname :: string
  file_mimetype :: string
  buffer :: bytes

text \<open>The form fields of \<^verbatim>\<open>POST /api/pastes\<close>; \<open>None\<close> is \<^verbatim>\<open>undefined\<close>.\<close>

record create_body =
  body_user_id :: "string option"
  body_password :: "string option"
  body_expires_in :: "string option"
  body_max_views :: "string option"
  body_max_downloads :: "string option"

text \<open>
  What one request takes from outside the handler: how each service call
  answers, the clock, \<^verbatim>\<open>bcrypt\<close>, \<^verbatim>\<open>crypto.randomUUID()\<close>, \<^verbatim>\<open>Number\<close> on strings,
  \<^verbatim>\<open>process.env.BACKEND_BASE_URL\<close>, and the row the database stores for an
  inserted object (its column defaults and conversions are not under \<^verbatim>\<open>src/\<close>).
  Three more fields stand for the JavaScript runtime: \<open>valid_header\<close> is the
  check \<^verbatim>\<open>res.setHeader\<close> makes of a header value (it throws on a character
  outside tab, \<^verbatim>\<open>0x20-0x7e\<close> and \<^verbatim>\<open>0x80-0xff\<close>), \<open>to_double\<close> rounds the exact result
  of an arithmetic operation to the number JavaScript computes, and
  \<open>String_trim\<close> is \<^verbatim>\<open>String.prototype.trim\<close>.
\<close>

record env =
  select_reply :: reply
  update_reply :: reply
  download_reply :: reply
  upload_reply :: reply
  insert_reply :: reply
  remove_reply :: reply
  delete_reply :: reply
  now :: int
  bcrypt_compare :: "string \<Rightarrow> string \<Rightarrow> bool"
  bcrypt_hash :: "string \<Rightarrow> string"
  randomUUID :: string
  Number_js :: "string \<Rightarrow> jsnum"
  backend_base_url :: string
  db_row :: "new_paste \<Rightarrow> paste"
  valid_header :: "string \<Rightarrow> bool"
  to_double :: "rat \<Rightarrow> jsnum"
  String_trim :: "string \<Rightarrow> string"

type_synonym result = "response \<times> world \<times> call list"

definition response_of :: "result \<Rightarrow> response" where
  "response_of r = fst r"

definition world_of :: "result \<Rightarrow> world" where
  "world_of r = fst (snd r)"

definition calls_of :: "result \<Rightarrow> call list" where
  "calls_of r = snd (snd r)"

subsection \<open>JavaScript values\<close>

text \<open>Truthiness of a string that may be \<^verbatim>\<open>null\<close> or \<^verbatim>\<open>undefined\<close>.\<close>

fun truthy :: "string option \<Rightarrow> bool" where
  "truthy None = False"
| "truthy (Some s) = (s \<noteq> [])"

text \<open>
  The time value of \<^verbatim>\<open>new Date(v)\<close> for a column value \<open>v\<close>: \<^verbatim>\<open>new Date(null)\<close>
  is the epoch, since \<^verbatim>\<open>ToNumber(null)\<close> is 0.
\<close>

fun new_Date :: "int option \<Rightarrow> int" where
  "new_Date None = 0"
| "new_Date (Some t) = t"

text \<open>\<^verbatim>\<open>max !== null && count >= max\<close>\<close>

fun limit_reached :: "int option \<Rightarrow> int \<Rightarrow> bool" where
  "limit_reached None c = False"
| "limit_reached (Some m) c = (c \<ge> m)"

fun quoted :: "string \<Rightarrow> string" where
  "quoted s = CHR 0x22 # s @ [CHR 0x22]"

subsection \<open>The service calls\<close>

text \<open>
  \<^verbatim>\<open>.select("*").eq("slug", s).single()\<close>: the row when exactly one row matches,
  \<^verbatim>\<open>data: null\<close> otherwise.
\<close>

definition single :: "paste list \<Rightarrow> string \<Rightarrow> paste option" where
  "single tbl s =
     (case filter (\<lambda>r. slug r = s) tbl of
        [r] \<Rightarrow> Some r
      | _ \<Rightarrow> None)"

fun db_select :: "reply \<Rightarrow> paste list \<Rightarrow> string \<Rightarrow> paste option" where
  "db_select Resolves tbl s = single tbl s"
| "db_select _ tbl s = None"

text \<open>\<^verbatim>\<open>.update(patch).eq("slug", s)\<close> patches every matching row.\<close>

fun db_update :: "reply \<Rightarrow> (paste \<Rightarrow> paste) \<Rightarrow> string \<Rightarrow> world \<Rightarrow> world" where
  "db_update Resolves patch s w =
     w\<lparr>pastes_table := map (\<lambda>r. if slug r = s then patch r else r) (pastes_table w)\<rparr>"
| "db_update _ patch s w = w"

text \<open>\<^verbatim>\<open>.delete().eq("slug", s)\<close>\<close>

fun db_delete :: "reply \<Rightarrow> string \<Rightarrow> world \<Rightarrow> world" where
  "db_delete Resolves s w =
     w\<lparr>pastes_table := filter (\<lambda>r. slug r \<noteq> s) (pastes_table w)\<rparr>"
| "db_delete _ s w = w"

text \<open>
  \<^verbatim>\<open>storage.from("pastes").download(path)\<close>: the blob, or \<^verbatim>\<open>data: null\<close> when the
  call resolves with an error or the bucket has no such object.
\<close>

fun storage_download :: "reply \<Rightarrow> world \<Rightarrow> string \<Rightarrow> bytes option" where
  "storage_download Resolves w path = map_of (pastes_bucket w) path"
| "storage_download _ w path = None"

text \<open>\<^verbatim>\<open>storage.from("pastes").remove([path])\<close>\<close>

fun storage_remove :: "reply \<Rightarrow> string \<Rightarrow> world \<Rightarrow> world" where
  "storage_remove Resolves path w =
     w\<lparr>pastes_bucket := filter (\<lambda>kv. fst kv \<noteq> path) (pastes_bucket w)\<rparr>"
| "storage_remove _ path w = w"

text \<open>
  The last steps of \<^verbatim>\<open>getPaste\<close> and \<^verbatim>\<open>downloadPaste\<close>: download the blob, read
  it into a buffer (\<^verbatim>\<open>blob.arrayBuffer()\<close> throws a \<^verbatim>\<open>TypeError\<close> on \<^verbatim>\<open>null\<close>),
  set \<^verbatim>\<open>Content-Type\<close>, then \<^verbatim>\<open>Content-Disposition\<close> (\<^verbatim>\<open>res.setHeader\<close> throws on
  a value it refuses), and send.
\<close>

definition send_blob :: "env \<Rightarrow> world \<Rightarrow> paste \<Rightarrow> string \<Rightarrow> call list \<Rightarrow> result" where
  "send_blob e w paste disposition cs =
     (let dl = StorageDownload (storage_path paste) in
      if download_reply e = Rejects then (Next (Rejected dl), w, cs @ [dl])
      else
        (case storage_download (download_reply e) w (storage_path paste) of
           None \<Rightarrow> (Next TypeError, w, cs @ [dl])
         | Some buf \<Rightarrow>
             if \<not> valid_header e (mimetype paste) then
               (Next (InvalidChar ''Content-Type''), w, cs @ [dl])
             else if \<not> valid_header e
                          (disposition @ ''; filename='' @ quoted (filename paste)) then
               (Next (InvalidChar ''Content-Disposition''), w, cs @ [dl])
             else
               (Send [(''Content-Type'', mimetype paste),
                      (''Content-Disposition'',
                         disposition @ ''; filename='' @ quoted (filename paste))]
                  buf,
                w, cs @ [dl])))"

subsection \<open>The handlers\<close>

text \<open>
  The block \<^verbatim>\<open>if (paste.password_hash) { ... }\<close> of \<^verbatim>\<open>getPaste\<close>: the response it
  returns, or \<open>None\<close> when control falls through it.
\<close>

fun password_gate :: "env \<Rightarrow> string option \<Rightarrow> string option \<Rightarrow> response option" where
  "password_gate e None password = None"
| "password_gate e (Some h) None =
     (if h = [] then None
      else Some (Json 401 [(''message'', JStr ''Password required''),
                           (''protected'', JBool True)]))"
| "password_gate e (Some h) (Some pw) =
     (if h = [] then None
      else if pw = [] then
        Some (Json 401 [(''message'', JStr ''Password required''),
                        (''protected'', JBool True)])
      else if \<not> bcrypt_compare e pw h then
        Some (Json 403 [(''type'', JStr ''invalid_password''),
                        (''message'', JStr ''Invalid password'')])
      else None)"

definition getPaste :: "env \<Rightarrow> world \<Rightarrow> string \<Rightarrow> string option \<Rightarrow> result" where
  "getPaste e w s password =
     (let sel = Select s in
      if select_reply e = Rejects then (Next (Rejected sel), w, [sel])
      else
        (case db_select (select_reply e) (pastes_table w) s of
           None \<Rightarrow> (Json 404 [(''message'', JStr ''Not found'')], w, [sel])
         | Some paste \<Rightarrow>
             if new_Date (expires_at paste) \<le> now e then
               (Json 410 [(''message'', JStr ''This doc has expired'')], w, [sel])
             else if limit_reached (max_views paste) (view_count paste) then
               (Json 403 [(''type'', JStr ''view_limit''),
                          (''message'', JStr ''Maximum view limit reached'')], w, [sel])
             else
               (case password_gate e (password_hash paste) password of
                  Some denied \<Rightarrow> (denied, w, [sel])
                | None \<Rightarrow>
                    (let upd = Update s ''view_count'' (view_count paste + 1) in
                     if update_reply e = Rejects then (Next (Rejected upd), w, [sel, upd])
                     else
                       send_blob e
                         (db_update (update_reply e)
                            (\<lambda>r. r\<lparr>view_count := view_count paste + 1\<rparr>) s w)
                         paste ''inline'' [sel, upd]))))"

definition downloadPaste :: "env \<Rightarrow> world \<Rightarrow> string \<Rightarrow> result" where
  "downloadPaste e w s =
     (let sel = Select s in
      if select_reply e = Rejects then (Next (Rejected sel), w, [sel])
      else
        (case db_select (select_reply e) (pastes_table w) s of
           None \<Rightarrow> (Json 404 [(''message'', JStr ''Not found'')], w, [sel])
         | Some paste \<Rightarrow>
             if new_Date (expires_at paste) \<le> now e then
               (Json 410 [(''message'', JStr ''Expired'')], w, [sel])
             else if limit_reached (max_downloads paste) (download_count paste) then
               (Json 403 [(''message'', JStr ''Maximum download limit reached'')], w, [sel])
             else
               (let upd = Update s ''download_count'' (download_count paste + 1) in
                if update_reply e = Rejects then (Next (Rejected upd), w, [sel, upd])
                else
                  send_blob e
                    (db_update (update_reply e)
                       (\<lambda>r. r\<lparr>download_count := download_count paste + 1\<rparr>) s w)
                    paste ''attachment'' [sel, upd])))"

text \<open>
  The field \<^verbatim>\<open>expired\<close> that \<^verbatim>\<open>getUserPastes\<close> computes for a row:
  \<^verbatim>\<open>paste.expires_at && new Date(paste.expires_at) <= new Date()\<close>.
\<close>

fun listed_expired :: "env \<Rightarrow> paste \<Rightarrow> jval" where
  "listed_expired e paste =
     (case expires_at paste of
        None \<Rightarrow> JNull
      | Some t \<Rightarrow> JBool (new_Date (Some t) \<le> now e))"

fun nullable :: "int option \<Rightarrow> jval" where
  "nullable None = JNull"
| "nullable (Some n) = JNum n"

definition previewPaste :: "env \<Rightarrow> world \<Rightarrow> string \<Rightarrow> result" where
  "previewPaste e w s =
     (let sel = Select s in
      if select_reply e = Rejects then (Next (Rejected sel), w, [sel])
      else
        (case db_select (select_reply e) (pastes_table w) s of
           None \<Rightarrow> (Json 404 [(''message'', JStr ''Not found'')], w, [sel])
         | Some paste \<Rightarrow>
             (let dl = StorageDownload (storage_path paste) in
              if download_reply e = Rejects then (Next (Rejected dl), w, [sel, dl])
              else
                (case storage_download (download_reply e) w (storage_path paste) of
                   None \<Rightarrow> (Next TypeError, w, [sel, dl])
                 | Some buf \<Rightarrow>
                     (Json 200
                        [(''metadata'',
                            JObj [(''slug'', JStr (slug paste)),
                                  (''filename'', JStr (filename paste)),
                                  (''mimetype'', JStr (mimetype paste)),
                                  (''created_at'', JNum (created_at paste)),
                                  (''expires_at'', nullable (expires_at paste)),
                                  (''view_count'', JNum (view_count paste)),
                                  (''download_count'', JNum (download_count paste)),
                                  (''max_views'', nullable (max_views paste)),
                                  (''max_downloads'', nullable (max_downloads paste)),
                                  (''password_protected'',
                                     JBool (truthy (password_hash paste)))]),
                         (''file'', JBase64 buf),
                         (''mimetype'', JStr (mimetype paste))],
                      w, [sel, dl])))))"

definition deletePaste :: "env \<Rightarrow> world \<Rightarrow> string \<Rightarrow> result" where
  "deletePaste e w s =
     (let sel = Select s in
      if select_reply e = Rejects then (Next (Rejected sel), w, [sel])
      else
        (case db_select (select_reply e) (pastes_table w) s of
           None \<Rightarrow> (Json 404 [(''message'', JStr ''Paste not found'')], w, [sel])
         | Some paste \<Rightarrow>
             (let rm = StorageRemove (storage_path paste); del = Delete s in
              if remove_reply e = Rejects then (Next (Rejected rm), w, [sel, rm])
              else if remove_reply e = ResolvesError then
                (Json 500 [(''message'', JStr ''Failed to delete file from storage'')],
                 w, [sel, rm])
              else
                (let w1 = storage_remove (remove_reply e) (storage_path paste) w in
                 if delete_reply e = Rejects then (Next (Rejected del), w1, [sel, rm, del])
                 else if delete_reply e = ResolvesError then
                   (Json 500 [(''message'', JStr ''Failed to delete metadata'')],
                    w1, [sel, rm, del])
                 else
                   (Json 200 [(''message'', JStr ''File deleted successfully'')],
                    db_delete (delete_reply e) s w1, [sel, rm, del])))))"

subsection \<open>Creation\<close>

text \<open>\<^verbatim>\<open>req.body.f !== undefined ? Number(req.body.f) : null\<close>\<close>

fun limit_field :: "env \<Rightarrow> string option \<Rightarrow> jsnum option" where
  "limit_field e None = None"
| "limit_field e (Some v) = Some (Number_js e v)"

text \<open>\<^verbatim>\<open>isNaN(m) || m <= 0\<close>\<close>

fun not_positive :: "jsnum \<Rightarrow> bool" where
  "not_positive NaN = True"
| "not_positive (Num m) = (m \<le> 0)"
| "not_positive PosInfinity = False"
| "not_positive NegInfinity = True"

text \<open>
  \<^verbatim>\<open>x * c\<close> for a positive finite constant \<open>c\<close>, and \<^verbatim>\<open>t + x\<close> for a finite \<open>t\<close>:
  \<^verbatim>\<open>NaN\<close> and the infinities pass through, a finite result is rounded.
\<close>

fun times_js :: "env \<Rightarrow> jsnum \<Rightarrow> rat \<Rightarrow> jsnum" where
  "times_js e (Num x) c = to_double e (x * c)"
| "times_js e x c = x"

fun plus_js :: "env \<Rightarrow> rat \<Rightarrow> jsnum \<Rightarrow> jsnum" where
  "plus_js e t (Num x) = to_double e (t + x)"
| "plus_js e t x = x"

text \<open>
  The time value of \<^verbatim>\<open>new Date(x)\<close> for a number \<open>x\<close>: the date is invalid when
  \<open>x\<close> is not finite or beyond 8.64e15 ms, otherwise the fraction of a
  millisecond is dropped (towards zero).
\<close>

fun Date_of_number :: "jsnum \<Rightarrow> int option" where
  "Date_of_number (Num x) =
     (if \<bar>x\<bar> \<le> 8640000000000000 then Some (if 0 \<le> x then \<lfloor>x\<rfloor> else \<lceil>x\<rceil>) else None)"
| "Date_of_number x = None"

text \<open>\<^verbatim>\<open>new Date(Date.now() + expiryMinutes * 60 * 1000)\<close>\<close>

definition expiry :: "env \<Rightarrow> jsnum \<Rightarrow> int option" where
  "expiry e expiryMinutes =
     Date_of_number (plus_js e (of_int (now e)) (times_js e (times_js e expiryMinutes 60) 1000))"

text \<open>\<^verbatim>\<open>storage.from("pastes").upload(path, buffer, ...)\<close>\<close>

fun storage_upload :: "reply \<Rightarrow> string \<Rightarrow> bytes \<Rightarrow> world \<Rightarrow> world" where
  "storage_upload Resolves path buf w =
     w\<lparr>pastes_bucket := (path, buf) # filter (\<lambda>kv. fst kv \<noteq> path) (pastes_bucket w)\<rparr>"
| "storage_upload _ path buf w = w"

text \<open>\<^verbatim>\<open>.insert(obj)\<close> appends the row the database makes of the object.\<close>

fun db_insert :: "env \<Rightarrow> new_paste \<Rightarrow> world \<Rightarrow> world" where
  "db_insert e obj w =
     (if insert_reply e = Resolves
      then w\<lparr>pastes_table := pastes_table w @ [db_row e obj]\<rparr>
      else w)"

definition createPaste :: "env \<Rightarrow> world \<Rightarrow> create_body \<Rightarrow> upload_file option \<Rightarrow> result" where
  "createPaste e w body file =
     (let maxViews = limit_field e (body_max_views body);
          maxDownloads = limit_field e (body_max_downloads body)
      in
      case (if truthy (body_user_id body) \<and> truthy (body_expires_in body) then file
            else None) of
        None \<Rightarrow>
          (Json 400 [(''message'', JStr ''user_id, file and expires_in are required'')],
           w, [])
      | Some f \<Rightarrow>
          (let expiryMinutes =
                 (case body_expires_in body of None \<Rightarrow> NaN | Some v \<Rightarrow> Number_js e v)
           in
           if not_positive expiryMinutes then
             (Json 400
                [(''message'', JStr ''expires_in must be a positive number (minutes)'')],
              w, [])
           else
             (let expiresAt = expiry e expiryMinutes;
                  slug = take 8 (randomUUID e);
                  storagePath = ''uploads/'' @ slug @ ''-'' @ originalname f;
                  up = StorageUpload storagePath;
                  ins = Insert slug
              in
              if upload_reply e = Rejects then (Next (Rejected up), w, [up])
              else
                (let w1 = storage_upload (upload_reply e) storagePath (buffer f) w;
                     passwordHash =
                       (case body_password body of
                          None \<Rightarrow> None
                        | Some pw \<Rightarrow>
                            if String_trim e pw \<noteq> [] then Some (bcrypt_hash e pw) else None)
                 in
                 if insert_reply e = Rejects then (Next (Rejected ins), w1, [up, ins])
                 else
                   (Json 201
                      [(''url'', JStr (backend_base_url e @ ''/api/pastes/'' @ slug)),
                       (''protected'', JBool (truthy passwordHash))],
                    db_insert e
                      \<lparr>new_slug = slug,
                       new_user_id = (case body_user_id body of None \<Rightarrow> [] | Some u \<Rightarrow> u),
                       new_filename = originalname f,
                       new_mimetype = file_mimetype f,
                       new_storage_path = storagePath,
                       new_password_hash = passwordHash,
                       new_expires_at = expiresAt,
                       new_max_views = maxViews,
                       new_max_downloads = maxDownloads\<rparr>
                      w1,
                    [up, ins])))))"

subsection \<open>A running example\<close>

text \<open>
  Modelled from the spec: the row the table \<^verbatim>\<open>pastes\<close> stores for an inserted
  object, whose schema is not under \<^verbatim>\<open>src/\<close> (the counters start at 0,
  \<^verbatim>\<open>created_at\<close> is the time of creation, a limit is kept as an integer, an
  Invalid Date arrives as \<^verbatim>\<open>null\<close>). It is the instance of \<open>db_row\<close> in the
  example below; no handler depends on it.
\<close>

definition stored_row :: "int \<Rightarrow> new_paste \<Rightarrow> paste" where
  "stored_row t obj =
     \<lparr>slug = new_slug obj, user_id = new_user_id obj, filename = new_filename obj,
      mimetype = new_mimetype obj, storage_path = new_storage_path obj,
      password_hash = new_password_hash obj, expires_at = new_expires_at obj,
      max_views = (case new_max_views obj of Some (Num r) \<Rightarrow> Some \<lfloor>r\<rfloor> | _ \<Rightarrow> None),
      max_downloads =
        (case new_max_downloads obj of Some (Num r) \<Rightarrow> Some \<lfloor>r\<rfloor> | _ \<Rightarrow> None),
      view_count = 0, download_count = 0, created_at = t\<rparr>"

text \<open>
  Instances of the runtime fields for the example: the header check and
  \<^verbatim>\<open>trim\<close> for strings of ASCII characters, and arithmetic on integers small
  enough to need no rounding.
\<close>

definition header_char :: "char \<Rightarrow> bool" where
  "header_char c = (c = CHR 0x09 \<or> (32 \<le> (of_char c :: nat) \<and> (of_char c :: nat) < 127))"

definition ascii_header :: "string \<Rightarrow> bool" where
  "ascii_header v = list_all header_char v"

definition ascii_space :: "char \<Rightarrow> bool" where
  "ascii_space c = (c \<in> set [CHR 0x20, CHR 0x09, CHR 0x0A, CHR 0x0B, CHR 0x0C, CHR 0x0D])"

definition ascii_trim :: "string \<Rightarrow> string" where
  "ascii_trim v = rev (dropWhile ascii_space (rev (dropWhile ascii_space v)))"

text \<open>
  One protected paste with both limits set, its blob, and a request
  environment in which every service call succeeds.
\<close>

definition example_paste :: paste where
  "example_paste =
     \<lparr>slug = ''3f2a9c1e'', user_id = ''u1'', filename = ''a.pdf'',
      mimetype = ''application/pdf'', storage_path = ''uploads/3f2a9c1e-a.pdf'',
      password_hash = Some ''h:secret'', expires_at = Some 2000, max_views = Some 3,
      max_downloads = Some 2, view_count = 0, download_count = 0, created_at = 500\<rparr>"

definition example_world :: world where
  "example_world =
     \<lparr>pastes_table = [example_paste],
      pastes_bucket = [(''uploads/3f2a9c1e-a.pdf'', [37, 80, 68, 70])]\<rparr>"

definition example_env :: env where
  "example_env =
     \<lparr>select_reply = Resolves, update_reply = Resolves, download_reply = Resolves,
      upload_reply = Resolves, insert_reply = Resolves, remove_reply = Resolves,
      delete_reply = Resolves, now = 1000,
      bcrypt_compare = (\<lambda>pw h. h = ''h:'' @ pw),
      bcrypt_hash = (\<lambda>pw. ''h:'' @ pw),
      randomUUID = ''7b1d4e0a-5c2f-4a6b-9d3e-8f0a1b2c3d4e'',
      Number_js = (\<lambda>v. if v = ''60'' then Num 60 else if v = ''3'' then Num 3 else NaN),
      backend_base_url = ''https://api.example.com'',
      db_row = stored_row 1000,
      valid_header = ascii_header,
      to_double = Num,
      String_trim = ascii_trim\<rparr>"

definition example_body :: create_body where
  "example_body =
     \<lparr>body_user_id = Some ''u1'', body_password = Some ''pw'',
      body_expires_in = Some ''60'', body_max_views = Some ''3'',
      body_max_downloads = None\<rparr>"

definition example_file :: upload_file where
  "example_file = \<lparr>originalname = ''b.txt'', file_mimetype = ''text/plain'', buffer = [104, 105]\<rparr>"

text \<open>The example record with both counters at their limits.\<close>

definition spent_paste :: paste where
  "spent_paste = example_paste\<lparr>view_count := 3, download_count := 2\<rparr>"

definition spent_world :: world where
  "spent_world = example_world\<lparr>pastes_table := [spent_paste]\<rparr>"

section \<open>Properties\<close>

subsection \<open>Auxiliary facts\<close>

lemma single_patch:
  assumes "single tbl s = Some p" and "\<And>r. slug (f r) = slug r"
  shows "single (map (\<lambda>r. if slug r = s then f r else r) tbl) s = Some (f p)"
proof -
  have "filter (\<lambda>r. slug r = s) (map (\<lambda>r. if slug r = s then f r else r) tbl)
        = map f (filter (\<lambda>r. slug r = s) tbl)"
    using assms(2) by (induction tbl) auto
  moreover have "filter (\<lambda>r. slug r = s) tbl = [p]"
    using assms(1) by (auto simp: single_def split: list.splits)
  ultimately show ?thesis by (simp add: single_def)
qed

lemma others_patch:
  assumes "\<And>r. slug (f r) = slug r"
  shows "filter (\<lambda>r. slug r \<noteq> s) (map (\<lambda>r. if slug r = s then f r else r) tbl)
         = filter (\<lambda>r. slug r \<noteq> s) tbl"
  using assms by (induction tbl) auto

lemma single_unknown: "s \<notin> slug ` set tbl \<Longrightarrow> single tbl s = None"
proof -
  assume "s \<notin> slug ` set tbl"
  then have "filter (\<lambda>r. slug r = s) tbl = []"
    by (induction tbl) auto
  then show ?thesis by (simp add: single_def)
qed

lemma map_of_removed: "map_of (filter (\<lambda>kv. fst kv \<noteq> k) xs) k = None"
  by (induction xs) auto

lemma db_update_bucket: "pastes_bucket (db_update r f s w) = pastes_bucket w"
  by (cases r) simp_all

lemma send_blob_world: "world_of (send_blob e w p d cs) = w"
  by (simp add: send_blob_def world_of_def Let_def split: option.splits)

lemma send_blob_calls:
  "calls_of (send_blob e w p d cs) = cs @ [StorageDownload (storage_path p)]"
  by (simp add: send_blob_def calls_of_def Let_def split: option.splits)

lemma send_blob_sent:
  assumes "download_reply e = Resolves"
    and "map_of (pastes_bucket w) (storage_path p) = Some buf"
    and "valid_header e (mimetype p)"
    and "valid_header e (d @ ''; filename='' @ quoted (filename p))"
  shows "send_blob e w p d cs
         = (Send [(''Content-Type'', mimetype p),
                  (''Content-Disposition'', d @ ''; filename='' @ quoted (filename p))]
              buf,
            w, cs @ [StorageDownload (storage_path p)])"
  using assms by (simp add: send_blob_def Let_def)

lemma send_blob_fails:
  assumes "download_reply e \<noteq> Resolves \<or> map_of (pastes_bucket w) (storage_path p) = None"
  shows "\<exists>err. response_of (send_blob e w p d cs) = Next err"
  using assms
  by (cases "download_reply e") (auto simp: send_blob_def response_of_def Let_def)

text \<open>What the two binary-serving handlers do once every gate is passed.\<close>

lemma getPaste_admitted:
  assumes "select_reply e = Resolves" and "single (pastes_table w) s = Some p"
    and "\<not> new_Date (expires_at p) \<le> now e"
    and "\<not> limit_reached (max_views p) (view_count p)"
    and "password_gate e (password_hash p) password = None"
    and "update_reply e \<noteq> Rejects"
  shows "getPaste e w s password
         = send_blob e
             (db_update (update_reply e) (\<lambda>r. r\<lparr>view_count := view_count p + 1\<rparr>) s w)
             p ''inline'' [Select s, Update s ''view_count'' (view_count p + 1)]"
  using assms by (simp add: getPaste_def Let_def)

lemma downloadPaste_admitted:
  assumes "select_reply e = Resolves" and "single (pastes_table w) s = Some p"
    and "\<not> new_Date (expires_at p) \<le> now e"
    and "\<not> limit_reached (max_downloads p) (download_count p)"
    and "update_reply e \<noteq> Rejects"
  shows "downloadPaste e w s
         = send_blob e
             (db_update (update_reply e) (\<lambda>r. r\<lparr>download_count := download_count p + 1\<rparr>) s w)
             p ''attachment'' [Select s, Update s ''download_count'' (download_count p + 1)]"
  using assms by (simp add: downloadPaste_def Let_def)

lemma example_loads: "single (pastes_table example_world) ''3f2a9c1e'' = Some example_paste"
  by (simp add: single_def example_world_def example_paste_def)

lemma example_live: "expires_at example_paste = Some 2000 \<and> now example_env < 2000"
  by (simp add: example_paste_def example_env_def)

lemma spent_loads: "single (pastes_table spent_world) ''3f2a9c1e'' = Some spent_paste"
  by (simp add: single_def spent_world_def spent_paste_def example_paste_def)

subsection \<open>Expiry\<close>

text \<open>
  Expiry is the first check of a View and of a Download: for every record that
  loads and whose \<^verbatim>\<open>expires_at\<close> is present and not after the time of access,
  \<^verbatim>\<open>getPaste\<close> and \<^verbatim>\<open>downloadPaste\<close> answer 410 whatever the password, the
  counters and the limits, and issue no call besides the select.
\<close>

lemma expired_record_is_gone:
  assumes "select_reply e = Resolves" and "single (pastes_table w) s = Some p"
    and "expires_at p = Some t" and "t \<le> now e"
  shows "getPaste e w s password
           = (Json 410 [(''message'', JStr ''This doc has expired'')], w, [Select s])
       \<and> downloadPaste e w s = (Json 410 [(''message'', JStr ''Expired'')], w, [Select s])"
  using assms by (simp add: getPaste_def downloadPaste_def)

text \<open>
  C1 says that every access kind, Preview included, evaluates to Expired on a
  record whose \<^verbatim>\<open>expires_at\<close> is in the past. \<^verbatim>\<open>previewPaste\<close> has no expiry check:
  for every such record that loads and whose blob downloads, it answers 200
  with the metadata and the file.
\<close>

theorem preview_serves_expired_record:
  assumes "select_reply e = Resolves" and "single (pastes_table w) s = Some p"
    and "expires_at p = Some t" and "t \<le> now e"
    and "download_reply e = Resolves"
    and "map_of (pastes_bucket w) (storage_path p) = Some buf"
  shows "previewPaste e w s
         = (Json 200
              [(''metadata'',
                  JObj [(''slug'', JStr (slug p)), (''filename'', JStr (filename p)),
                        (''mimetype'', JStr (mimetype p)),
                        (''created_at'', JNum (created_at p)),
                        (''expires_at'', JNum t),
                        (''view_count'', JNum (view_count p)),
                        (''download_count'', JNum (download_count p)),
                        (''max_views'', nullable (max_views p)),
                        (''max_downloads'', nullable (max_downloads p)),
                        (''password_protected'', JBool (truthy (password_hash p)))]),
               (''file'', JBase64 buf),
               (''mimetype'', JStr (mimetype p))],
            w, [Select s, StorageDownload (storage_path p)])"
  using assms by (simp add: previewPaste_def Let_def)

theorem preview_serves_expired_record_witness:
  "select_reply (example_env\<lparr>now := 3000\<rparr>) = Resolves
   \<and> single (pastes_table example_world) ''3f2a9c1e'' = Some example_paste
   \<and> expires_at example_paste = Some 2000
   \<and> 2000 \<le> now (example_env\<lparr>now := 3000\<rparr>)
   \<and> download_reply (example_env\<lparr>now := 3000\<rparr>) = Resolves
   \<and> map_of (pastes_bucket example_world) (storage_path example_paste)
       = Some [37, 80, 68, 70]
   \<and> previewPaste (example_env\<lparr>now := 3000\<rparr>) example_world ''3f2a9c1e''
       = (Json 200
           [(''metadata'',
              JObj [(''slug'', JStr ''3f2a9c1e''), (''filename'', JStr ''a.pdf''),
                    (''mimetype'', JStr ''application/pdf''), (''created_at'', JNum 500),
                    (''expires_at'', JNum 2000), (''view_count'', JNum 0),
                    (''download_count'', JNum 0), (''max_views'', JNum 3),
                    (''max_downloads'', JNum 2), (''password_protected'', JBool True)]),
            (''file'', JBase64 [37, 80, 68, 70]),
            (''mimetype'', JStr ''application/pdf'')],
          example_world,
          [Select ''3f2a9c1e'', StorageDownload ''uploads/3f2a9c1e-a.pdf''])"
proof -
  have h1: "select_reply (example_env\<lparr>now := 3000\<rparr>) = Resolves"
    and h5: "download_reply (example_env\<lparr>now := 3000\<rparr>) = Resolves"
    by (simp_all add: example_env_def)
  have h3: "expires_at example_paste = Some 2000"
    by (simp add: example_paste_def)
  have h4: "2000 \<le> now (example_env\<lparr>now := 3000\<rparr>)"
    by simp
  have h6: "map_of (pastes_bucket example_world) (storage_path example_paste)
            = Some [37, 80, 68, 70]"
    by (simp add: example_world_def example_paste_def)
  have fields: "slug example_paste = ''3f2a9c1e''" "filename example_paste = ''a.pdf''"
    "mimetype example_paste = ''application/pdf''" "created_at example_paste = 500"
    "view_count example_paste = 0" "download_count example_paste = 0"
    "max_views example_paste = Some 3" "max_downloads example_paste = Some 2"
    "password_hash example_paste = Some ''h:secret''"
    "storage_path example_paste = ''uploads/3f2a9c1e-a.pdf''"
    by (simp_all add: example_paste_def)
  show ?thesis
    using h1 example_loads h3 h4 h5 h6
      preview_serves_expired_record [OF h1 example_loads h3 h4 h5 h6]
    by (simp add: fields)
qed

text \<open>
  C4 says that a record without \<^verbatim>\<open>expires_at\<close> never evaluates to Expired. The
  handlers compare \<^verbatim>\<open>new Date(paste.expires_at) <= new Date()\<close> with no guard for
  \<^verbatim>\<open>null\<close>, and \<^verbatim>\<open>new Date(null)\<close> is the epoch: at any time from 1970 on, a View
  and a Download of a record whose \<^verbatim>\<open>expires_at\<close> is \<^verbatim>\<open>null\<close> answer 410, whatever
  the password and the counters.
\<close>

theorem null_expiry_reads_as_expired:
  assumes "select_reply e = Resolves" and "single (pastes_table w) s = Some p"
    and "expires_at p = None" and "0 \<le> now e"
  shows "getPaste e w s password
           = (Json 410 [(''message'', JStr ''This doc has expired'')], w, [Select s])
       \<and> downloadPaste e w s = (Json 410 [(''message'', JStr ''Expired'')], w, [Select s])"
  using assms by (simp add: getPaste_def downloadPaste_def)

theorem null_expiry_reads_as_expired_witness:
  "select_reply example_env = Resolves
   \<and> single [example_paste\<lparr>expires_at := None\<rparr>] ''3f2a9c1e''
       = Some (example_paste\<lparr>expires_at := None\<rparr>)
   \<and> expires_at (example_paste\<lparr>expires_at := None\<rparr>) = None
   \<and> 0 \<le> now example_env
   \<and> getPaste example_env (example_world\<lparr>pastes_table := [example_paste\<lparr>expires_at := None\<rparr>]\<rparr>)
         ''3f2a9c1e'' (Some ''secret'')
       = (Json 410 [(''message'', JStr ''This doc has expired'')],
          example_world\<lparr>pastes_table := [example_paste\<lparr>expires_at := None\<rparr>]\<rparr>,
          [Select ''3f2a9c1e''])
   \<and> downloadPaste example_env
         (example_world\<lparr>pastes_table := [example_paste\<lparr>expires_at := None\<rparr>]\<rparr>) ''3f2a9c1e''
       = (Json 410 [(''message'', JStr ''Expired'')],
          example_world\<lparr>pastes_table := [example_paste\<lparr>expires_at := None\<rparr>]\<rparr>,
          [Select ''3f2a9c1e''])"
proof -
  have h1: "select_reply example_env = Resolves"
    by (simp add: example_env_def)
  have h2: "single (pastes_table (example_world\<lparr>pastes_table := [example_paste\<lparr>expires_at := None\<rparr>]\<rparr>))
              ''3f2a9c1e'' = Some (example_paste\<lparr>expires_at := None\<rparr>)"
    by (simp add: single_def example_paste_def)
  have h3: "expires_at (example_paste\<lparr>expires_at := None\<rparr>) = None"
    by simp
  have h4: "0 \<le> now example_env"
    by (simp add: example_env_def)
  show ?thesis
    using h1 h2 h3 h4 null_expiry_reads_as_expired [OF h1 h2 h3 h4, of "Some ''secret''"]
    by simp
qed

text \<open>
  The listing of \<^verbatim>\<open>getUserPastes\<close> does guard the same comparison with
  \<^verbatim>\<open>paste.expires_at &&\<close>, so a record without expiry is not listed as expired.
\<close>

lemma listing_guards_null_expiry:
  "expires_at p = None \<Longrightarrow> listed_expired e p = JNull"
  by simp

subsection \<open>Limits and passwords\<close>

text \<open>
  C5. The limit check of a View precedes its password check: for every record
  that loads, with an expiry in the future, \<^verbatim>\<open>max_views\<close> set and
  \<^verbatim>\<open>view_count >= max_views\<close>, \<^verbatim>\<open>getPaste\<close> answers 403 \<^verbatim>\<open>view_limit\<close> whatever the
  record's password hash, whether the supplied password is absent, wrong or
  right, and it touches neither the counters nor the bucket.
\<close>

theorem view_limit_before_password:
  assumes "select_reply e = Resolves" and "single (pastes_table w) s = Some p"
    and "expires_at p = Some t" and "now e < t"
    and "max_views p = Some m" and "m \<le> view_count p"
  shows "getPaste e w s password
           = (Json 403 [(''type'', JStr ''view_limit''),
                        (''message'', JStr ''Maximum view limit reached'')], w, [Select s])"
  using assms by (simp add: getPaste_def)

theorem view_limit_before_password_witness:
  "select_reply example_env = Resolves
   \<and> single [example_paste\<lparr>view_count := 3\<rparr>] ''3f2a9c1e'' = Some (example_paste\<lparr>view_count := 3\<rparr>)
   \<and> expires_at (example_paste\<lparr>view_count := 3\<rparr>) = Some 2000 \<and> now example_env < 2000
   \<and> max_views (example_paste\<lparr>view_count := 3\<rparr>) = Some 3
   \<and> 3 \<le> view_count (example_paste\<lparr>view_count := 3\<rparr>)
   \<and> password_hash (example_paste\<lparr>view_count := 3\<rparr>) = Some ''h:secret''
   \<and> bcrypt_compare example_env ''secret'' ''h:secret''
   \<and> getPaste example_env (example_world\<lparr>pastes_table := [example_paste\<lparr>view_count := 3\<rparr>]\<rparr>)
         ''3f2a9c1e'' (Some ''secret'')
       = (Json 403 [(''type'', JStr ''view_limit''),
                    (''message'', JStr ''Maximum view limit reached'')],
          example_world\<lparr>pastes_table := [example_paste\<lparr>view_count := 3\<rparr>]\<rparr>,
          [Select ''3f2a9c1e''])
   \<and> getPaste example_env (example_world\<lparr>pastes_table := [example_paste\<lparr>view_count := 3\<rparr>]\<rparr>)
         ''3f2a9c1e'' (Some ''wrong'')
       = (Json 403 [(''type'', JStr ''view_limit''),
                    (''message'', JStr ''Maximum view limit reached'')],
          example_world\<lparr>pastes_table := [example_paste\<lparr>view_count := 3\<rparr>]\<rparr>,
          [Select ''3f2a9c1e''])
   \<and> getPaste example_env (example_world\<lparr>pastes_table := [example_paste\<lparr>view_count := 3\<rparr>]\<rparr>)
         ''3f2a9c1e'' None
       = (Json 403 [(''type'', JStr ''view_limit''),
                    (''message'', JStr ''Maximum view limit reached'')],
          example_world\<lparr>pastes_table := [example_paste\<lparr>view_count := 3\<rparr>]\<rparr>,
          [Select ''3f2a9c1e''])"
proof -
  have h1: "select_reply example_env = Resolves"
    by (simp add: example_env_def)
  have h2: "single (pastes_table (example_world\<lparr>pastes_table := [example_paste\<lparr>view_count := 3\<rparr>]\<rparr>))
              ''3f2a9c1e'' = Some (example_paste\<lparr>view_count := 3\<rparr>)"
    by (simp add: single_def example_paste_def)
  have h3: "expires_at (example_paste\<lparr>view_count := 3\<rparr>) = Some 2000"
    and h4: "now example_env < 2000"
    using example_live by simp_all
  have h5: "max_views (example_paste\<lparr>view_count := 3\<rparr>) = Some 3"
    and h6: "3 \<le> view_count (example_paste\<lparr>view_count := 3\<rparr>)"
    by (simp_all add: example_paste_def)
  have h7: "password_hash (example_paste\<lparr>view_count := 3\<rparr>) = Some ''h:secret''"
    "bcrypt_compare example_env ''secret'' ''h:secret''"
    by (simp_all add: example_paste_def example_env_def)
  note limit = view_limit_before_password [OF h1 h2 h3 h4 h5 h6]
  show ?thesis
    using h1 h2 h3 h4 h5 h7 limit [of "Some ''secret''"] limit [of "Some ''wrong''"]
      limit [of None]
    by simp
qed

text \<open>
  The password check of a View. For every record that loads, with an expiry in
  the future, a non-empty \<^verbatim>\<open>password_hash\<close> and \<^verbatim>\<open>view_count\<close> below its limit,
  \<^verbatim>\<open>getPaste\<close> answers 401 when no password (or an empty one) is supplied, 403
  \<^verbatim>\<open>invalid_password\<close> when \<^verbatim>\<open>bcrypt.compare\<close> fails, and passes the gate when it
  succeeds: the increment of \<^verbatim>\<open>view_count\<close> is issued, and the blob is sent when
  the update does not throw, the download succeeds and both header values are
  accepted.
\<close>

lemma view_password_gate:
  assumes "select_reply e = Resolves" and "single (pastes_table w) s = Some p"
    and "expires_at p = Some t" and "now e < t"
    and "password_hash p = Some h" and "h \<noteq> []"
  shows "(\<not> limit_reached (max_views p) (view_count p) \<and> \<not> truthy password \<longrightarrow>
            getPaste e w s password
              = (Json 401 [(''message'', JStr ''Password required''),
                           (''protected'', JBool True)], w, [Select s]))
       \<and> (\<not> limit_reached (max_views p) (view_count p) \<and> pw \<noteq> []
            \<and> \<not> bcrypt_compare e pw h \<longrightarrow>
            getPaste e w s (Some pw)
              = (Json 403 [(''type'', JStr ''invalid_password''),
                           (''message'', JStr ''Invalid password'')], w, [Select s]))
       \<and> (\<not> limit_reached (max_views p) (view_count p) \<and> pw \<noteq> []
            \<and> bcrypt_compare e pw h \<longrightarrow>
            take 2 (calls_of (getPaste e w s (Some pw)))
              = [Select s, Update s ''view_count'' (view_count p + 1)])
       \<and> (\<not> limit_reached (max_views p) (view_count p) \<and> pw \<noteq> []
            \<and> bcrypt_compare e pw h \<and> update_reply e \<noteq> Rejects
            \<and> download_reply e = Resolves
            \<and> map_of (pastes_bucket w) (storage_path p) = Some buf
            \<and> valid_header e (mimetype p)
            \<and> valid_header e (''inline; filename='' @ quoted (filename p)) \<longrightarrow>
            response_of (getPaste e w s (Some pw))
              = Send [(''Content-Type'', mimetype p),
                      (''Content-Disposition'', ''inline; filename='' @ quoted (filename p))]
                  buf)"
proof -
  have bucket: "storage_download r (db_update r' f s w) path = storage_download r w path"
    for r r' f path
    by (cases r; cases r') simp_all
  have not_expired: "\<not> new_Date (expires_at p) \<le> now e"
    using assms(3,4) by simp
  have c1: "\<not> limit_reached (max_views p) (view_count p) \<and> \<not> truthy password \<longrightarrow>
            getPaste e w s password
              = (Json 401 [(''message'', JStr ''Password required''),
                           (''protected'', JBool True)], w, [Select s])"
    using assms(1,2,5,6) not_expired
    by (cases password) (simp_all add: getPaste_def)
  have c2: "\<not> limit_reached (max_views p) (view_count p) \<and> pw \<noteq> []
            \<and> \<not> bcrypt_compare e pw h \<longrightarrow>
            getPaste e w s (Some pw)
              = (Json 403 [(''type'', JStr ''invalid_password''),
                           (''message'', JStr ''Invalid password'')], w, [Select s])"
    using assms(1,2,5,6) not_expired by (simp add: getPaste_def)
  have c3: "\<not> limit_reached (max_views p) (view_count p) \<and> pw \<noteq> []
            \<and> bcrypt_compare e pw h \<longrightarrow>
            take 2 (calls_of (getPaste e w s (Some pw)))
              = [Select s, Update s ''view_count'' (view_count p + 1)]"
    using assms(1,2,5,6) not_expired
    by (simp add: getPaste_def send_blob_def calls_of_def Let_def split: option.splits)
  have c4: "\<not> limit_reached (max_views p) (view_count p) \<and> pw \<noteq> []
            \<and> bcrypt_compare e pw h \<and> update_reply e \<noteq> Rejects
            \<and> download_reply e = Resolves
            \<and> map_of (pastes_bucket w) (storage_path p) = Some buf
            \<and> valid_header e (mimetype p)
            \<and> valid_header e (''inline; filename='' @ quoted (filename p)) \<longrightarrow>
            response_of (getPaste e w s (Some pw))
              = Send [(''Content-Type'', mimetype p),
                      (''Content-Disposition'', ''inline; filename='' @ quoted (filename p))]
                  buf"
    using assms(1,2,5,6) not_expired
    by (auto simp: getPaste_def send_blob_def response_of_def Let_def bucket)
  from c1 c2 c3 c4 show ?thesis by blast
qed

text \<open>
  C2 says that a Download of a record with a password hash returns
  PasswordRequired when no password is supplied. \<^verbatim>\<open>downloadPaste\<close> reads no
  password and has no password check: for every protected record that loads,
  with an expiry in the future and \<^verbatim>\<open>download_count\<close> below its limit, it issues
  the increment and sends the file.
\<close>

theorem download_skips_password_check:
  assumes "select_reply e = Resolves" and "single (pastes_table w) s = Some p"
    and "expires_at p = Some t" and "now e < t"
    and "password_hash p = Some h" and "h \<noteq> []"
    and "\<not> limit_reached (max_downloads p) (download_count p)"
    and "update_reply e \<noteq> Rejects" and "download_reply e = Resolves"
    and "map_of (pastes_bucket w) (storage_path p) = Some buf"
    and "valid_header e (mimetype p)"
    and "valid_header e (''attachment; filename='' @ quoted (filename p))"
  shows "response_of (downloadPaste e w s)
           = Send [(''Content-Type'', mimetype p),
                   (''Content-Disposition'', ''attachment; filename='' @ quoted (filename p))]
               buf
       \<and> calls_of (downloadPaste e w s)
           = [Select s, Update s ''download_count'' (download_count p + 1),
              StorageDownload (storage_path p)]"
proof -
  have live: "\<not> new_Date (expires_at p) \<le> now e"
    using assms(3,4) by simp
  have blob: "map_of (pastes_bucket (db_update (update_reply e) f s w)) (storage_path p)
              = Some buf" for f
    using assms(10) by (simp add: db_update_bucket)
  show ?thesis
    using send_blob_sent [OF assms(9) blob assms(11), of "''attachment''"] assms(12)
    by (simp add: downloadPaste_admitted [OF assms(1,2) live assms(7,8)]
        response_of_def calls_of_def)
qed

theorem download_skips_password_check_witness:
  "select_reply example_env = Resolves
   \<and> single (pastes_table example_world) ''3f2a9c1e'' = Some example_paste
   \<and> expires_at example_paste = Some 2000 \<and> now example_env < 2000
   \<and> password_hash example_paste = Some ''h:secret'' \<and> ''h:secret'' \<noteq> []
   \<and> \<not> limit_reached (max_downloads example_paste) (download_count example_paste)
   \<and> update_reply example_env \<noteq> Rejects \<and> download_reply example_env = Resolves
   \<and> map_of (pastes_bucket example_world) (storage_path example_paste)
       = Some [37, 80, 68, 70]
   \<and> valid_header example_env (mimetype example_paste)
   \<and> valid_header example_env (''attachment; filename='' @ quoted (filename example_paste))
   \<and> response_of (downloadPaste example_env example_world ''3f2a9c1e'')
       = Send [(''Content-Type'', ''application/pdf''),
               (''Content-Disposition'', ''attachment; filename='' @ quoted ''a.pdf'')]
           [37, 80, 68, 70]
   \<and> calls_of (downloadPaste example_env example_world ''3f2a9c1e'')
       = [Select ''3f2a9c1e'', Update ''3f2a9c1e'' ''download_count'' 1,
          StorageDownload ''uploads/3f2a9c1e-a.pdf'']"
proof -
  have h1: "select_reply example_env = Resolves"
    and h8: "update_reply example_env \<noteq> Rejects"
    and h9: "download_reply example_env = Resolves"
    by (simp_all add: example_env_def)
  have h3: "expires_at example_paste = Some 2000" and h4: "now example_env < 2000"
    using example_live by simp_all
  have h5: "password_hash example_paste = Some ''h:secret''"
    by (simp add: example_paste_def)
  have h6: "''h:secret'' \<noteq> []"
    by simp
  have h7: "\<not> limit_reached (max_downloads example_paste) (download_count example_paste)"
    by (simp add: example_paste_def)
  have h10: "map_of (pastes_bucket example_world) (storage_path example_paste)
             = Some [37, 80, 68, 70]"
    by (simp add: example_world_def example_paste_def)
  have h11: "valid_header example_env (mimetype example_paste)"
    and h12: "valid_header example_env
                (''attachment; filename='' @ quoted (filename example_paste))"
    by (simp_all add: example_env_def example_paste_def ascii_header_def header_char_def)
  have fields: "mimetype example_paste = ''application/pdf''"
    "filename example_paste = ''a.pdf''" "download_count example_paste = 0"
    "storage_path example_paste = ''uploads/3f2a9c1e-a.pdf''"
    by (simp_all add: example_paste_def)
  show ?thesis
    using h1 example_loads h3 h4 h5 h7 h8 h9 h10 h11 h12
      download_skips_password_check
        [OF h1 example_loads h3 h4 h5 h6 h7 h8 h9 h10 h11 h12]
    by (simp add: fields)
qed

subsection \<open>Counters and delivery\<close>

text \<open>
  What the increment does when the table applies it: the row of the slug
  becomes the loaded row with \<^verbatim>\<open>view_count\<close> (for a Download, \<^verbatim>\<open>download_count\<close>) one
  higher and every other field as it was, and all other rows and the bucket
  are unchanged.
\<close>

lemma admitted_access_counts_once:
  assumes "select_reply e = Resolves" and "single (pastes_table w) s = Some p"
    and "expires_at p = Some t" and "now e < t" and "update_reply e = Resolves"
  shows "(\<not> limit_reached (max_views p) (view_count p)
          \<and> password_gate e (password_hash p) password = None \<longrightarrow>
            single (pastes_table (world_of (getPaste e w s password))) s
              = Some (p\<lparr>view_count := view_count p + 1\<rparr>)
            \<and> filter (\<lambda>r. slug r \<noteq> s) (pastes_table (world_of (getPaste e w s password)))
                = filter (\<lambda>r. slug r \<noteq> s) (pastes_table w)
            \<and> pastes_bucket (world_of (getPaste e w s password)) = pastes_bucket w)
       \<and> (\<not> limit_reached (max_downloads p) (download_count p) \<longrightarrow>
            single (pastes_table (world_of (downloadPaste e w s))) s
              = Some (p\<lparr>download_count := download_count p + 1\<rparr>)
            \<and> filter (\<lambda>r. slug r \<noteq> s) (pastes_table (world_of (downloadPaste e w s)))
                = filter (\<lambda>r. slug r \<noteq> s) (pastes_table w)
            \<and> pastes_bucket (world_of (downloadPaste e w s)) = pastes_bucket w)"
proof -
  have live: "\<not> new_Date (expires_at p) \<le> now e"
    using assms(3,4) by simp
  have upd: "update_reply e \<noteq> Rejects"
    using assms(5) by simp
  have view: "single (pastes_table (world_of (getPaste e w s password))) s
              = Some (p\<lparr>view_count := view_count p + 1\<rparr>)
            \<and> filter (\<lambda>r. slug r \<noteq> s) (pastes_table (world_of (getPaste e w s password)))
                = filter (\<lambda>r. slug r \<noteq> s) (pastes_table w)
            \<and> pastes_bucket (world_of (getPaste e w s password)) = pastes_bucket w"
    if "\<not> limit_reached (max_views p) (view_count p)"
      and "password_gate e (password_hash p) password = None"
  proof -
    have "world_of (getPaste e w s password)
          = db_update Resolves (\<lambda>r. r\<lparr>view_count := view_count p + 1\<rparr>) s w"
      using getPaste_admitted [OF assms(1,2) live that upd] assms(5)
      by (simp add: send_blob_world)
    then show ?thesis
      using single_patch [OF assms(2), of "\<lambda>r. r\<lparr>view_count := view_count p + 1\<rparr>"]
      by (simp add: others_patch)
  qed
  have download: "single (pastes_table (world_of (downloadPaste e w s))) s
              = Some (p\<lparr>download_count := download_count p + 1\<rparr>)
            \<and> filter (\<lambda>r. slug r \<noteq> s) (pastes_table (world_of (downloadPaste e w s)))
                = filter (\<lambda>r. slug r \<noteq> s) (pastes_table w)
            \<and> pastes_bucket (world_of (downloadPaste e w s)) = pastes_bucket w"
    if "\<not> limit_reached (max_downloads p) (download_count p)"
  proof -
    have "world_of (downloadPaste e w s)
          = db_update Resolves (\<lambda>r. r\<lparr>download_count := download_count p + 1\<rparr>) s w"
      using downloadPaste_admitted [OF assms(1,2) live that upd] assms(5)
      by (simp add: send_blob_world)
    then show ?thesis
      using single_patch [OF assms(2), of "\<lambda>r. r\<lparr>download_count := download_count p + 1\<rparr>"]
      by (simp add: others_patch)
  qed
  from view download show ?thesis by blast
qed

text \<open>
  C8 says that every admitted View or Download increments its counter by
  exactly 1. The handlers await the update and discard its \<^verbatim>\<open>{ data, error }\<close>
  result: when the update resolves with an error, a request that passes every
  check is still sent the file, and table and bucket are left as they were,
  the counter not incremented.
\<close>

theorem unchecked_update_serves_uncounted:
  assumes "select_reply e = Resolves" and "single (pastes_table w) s = Some p"
    and "expires_at p = Some t" and "now e < t"
    and "update_reply e = ResolvesError" and "download_reply e = Resolves"
    and "map_of (pastes_bucket w) (storage_path p) = Some buf"
    and "valid_header e (mimetype p)"
  shows "(\<not> limit_reached (max_views p) (view_count p)
          \<and> password_gate e (password_hash p) password = None
          \<and> valid_header e (''inline; filename='' @ quoted (filename p)) \<longrightarrow>
            getPaste e w s password
              = (Send [(''Content-Type'', mimetype p),
                       (''Content-Disposition'',
                          ''inline; filename='' @ quoted (filename p))]
                   buf,
                 w,
                 [Select s, Update s ''view_count'' (view_count p + 1),
                  StorageDownload (storage_path p)]))
       \<and> (\<not> limit_reached (max_downloads p) (download_count p)
          \<and> valid_header e (''attachment; filename='' @ quoted (filename p)) \<longrightarrow>
            downloadPaste e w s
              = (Send [(''Content-Type'', mimetype p),
                       (''Content-Disposition'',
                          ''attachment; filename='' @ quoted (filename p))]
                   buf,
                 w,
                 [Select s, Update s ''download_count'' (download_count p + 1),
                  StorageDownload (storage_path p)]))"
proof -
  have live: "\<not> new_Date (expires_at p) \<le> now e"
    using assms(3,4) by simp
  have upd: "update_reply e \<noteq> Rejects"
    using assms(5) by simp
  have same: "db_update (update_reply e) f s w = w" for f
    using assms(5) by simp
  have view: "getPaste e w s password
              = (Send [(''Content-Type'', mimetype p),
                       (''Content-Disposition'',
                          ''inline; filename='' @ quoted (filename p))]
                   buf,
                 w,
                 [Select s, Update s ''view_count'' (view_count p + 1),
                  StorageDownload (storage_path p)])"
    if "\<not> limit_reached (max_views p) (view_count p)"
      and "password_gate e (password_hash p) password = None"
      and "valid_header e (''inline; filename='' @ quoted (filename p))"
    using send_blob_sent [OF assms(6,7,8), of "''inline''"] that(3)
    by (simp add: getPaste_admitted [OF assms(1,2) live that(1,2) upd] same)
  have download: "downloadPaste e w s
              = (Send [(''Content-Type'', mimetype p),
                       (''Content-Disposition'',
                          ''attachment; filename='' @ quoted (filename p))]
                   buf,
                 w,
                 [Select s, Update s ''download_count'' (download_count p + 1),
                  StorageDownload (storage_path p)])"
    if "\<not> limit_reached (max_downloads p) (download_count p)"
      and "valid_header e (''attachment; filename='' @ quoted (filename p))"
    using send_blob_sent [OF assms(6,7,8), of "''attachment''"] that(2)
    by (simp add: downloadPaste_admitted [OF assms(1,2) live that(1) upd] same)
  from view download show ?thesis by blast
qed

theorem unchecked_update_serves_uncounted_witness:
  "select_reply (example_env\<lparr>update_reply := ResolvesError\<rparr>) = Resolves
   \<and> single (pastes_table example_world) ''3f2a9c1e'' = Some example_paste
   \<and> expires_at example_paste = Some 2000
   \<and> now (example_env\<lparr>update_reply := ResolvesError\<rparr>) < 2000
   \<and> update_reply (example_env\<lparr>update_reply := ResolvesError\<rparr>) = ResolvesError
   \<and> download_reply (example_env\<lparr>update_reply := ResolvesError\<rparr>) = Resolves
   \<and> map_of (pastes_bucket example_world) (storage_path example_paste)
       = Some [37, 80, 68, 70]
   \<and> valid_header (example_env\<lparr>update_reply := ResolvesError\<rparr>) (mimetype example_paste)
   \<and> \<not> limit_reached (max_views example_paste) (view_count example_paste)
   \<and> password_gate (example_env\<lparr>update_reply := ResolvesError\<rparr>)
         (password_hash example_paste) (Some ''secret'') = None
   \<and> valid_header (example_env\<lparr>update_reply := ResolvesError\<rparr>)
         (''inline; filename='' @ quoted (filename example_paste))
   \<and> getPaste (example_env\<lparr>update_reply := ResolvesError\<rparr>) example_world ''3f2a9c1e''
         (Some ''secret'')
       = (Send [(''Content-Type'', ''application/pdf''),
                (''Content-Disposition'', ''inline; filename='' @ quoted ''a.pdf'')]
            [37, 80, 68, 70],
          example_world,
          [Select ''3f2a9c1e'', Update ''3f2a9c1e'' ''view_count'' 1,
           StorageDownload ''uploads/3f2a9c1e-a.pdf''])
   \<and> view_count example_paste = 0
   \<and> \<not> limit_reached (max_downloads example_paste) (download_count example_paste)
   \<and> valid_header (example_env\<lparr>update_reply := ResolvesError\<rparr>)
         (''attachment; filename='' @ quoted (filename example_paste))
   \<and> downloadPaste (example_env\<lparr>update_reply := ResolvesError\<rparr>) example_world ''3f2a9c1e''
       = (Send [(''Content-Type'', ''application/pdf''),
                (''Content-Disposition'', ''attachment; filename='' @ quoted ''a.pdf'')]
            [37, 80, 68, 70],
          example_world,
          [Select ''3f2a9c1e'', Update ''3f2a9c1e'' ''download_count'' 1,
           StorageDownload ''uploads/3f2a9c1e-a.pdf''])
   \<and> download_count example_paste = 0"
proof -
  let ?e = "example_env\<lparr>update_reply := ResolvesError\<rparr>"
  have h1: "select_reply ?e = Resolves" and h5: "update_reply ?e = ResolvesError"
    and h6: "download_reply ?e = Resolves"
    by (simp_all add: example_env_def)
  have h3: "expires_at example_paste = Some 2000" and h4: "now ?e < 2000"
    using example_live by simp_all
  have h7: "map_of (pastes_bucket example_world) (storage_path example_paste)
            = Some [37, 80, 68, 70]"
    by (simp add: example_world_def example_paste_def)
  have hdr: "valid_header ?e (mimetype example_paste)"
    "valid_header ?e (''inline; filename='' @ quoted (filename example_paste))"
    "valid_header ?e (''attachment; filename='' @ quoted (filename example_paste))"
    by (simp_all add: example_env_def example_paste_def ascii_header_def header_char_def)
  have lim: "\<not> limit_reached (max_views example_paste) (view_count example_paste)"
    "\<not> limit_reached (max_downloads example_paste) (download_count example_paste)"
    by (simp_all add: example_paste_def)
  have gate: "password_gate ?e (password_hash example_paste) (Some ''secret'') = None"
    by (simp add: example_env_def example_paste_def)
  note served = unchecked_update_serves_uncounted [OF h1 example_loads h3 h4 h5 h6 h7 hdr(1),
      where password = "Some ''secret''"]
  have view: "getPaste ?e example_world ''3f2a9c1e'' (Some ''secret'')
       = (Send [(''Content-Type'', mimetype example_paste),
                (''Content-Disposition'',
                   ''inline; filename='' @ quoted (filename example_paste))]
            [37, 80, 68, 70],
          example_world,
          [Select ''3f2a9c1e'', Update ''3f2a9c1e'' ''view_count'' (view_count example_paste + 1),
           StorageDownload (storage_path example_paste)])"
    using lim(1) gate hdr(2) served by blast
  have download: "downloadPaste ?e example_world ''3f2a9c1e''
       = (Send [(''Content-Type'', mimetype example_paste),
                (''Content-Disposition'',
                   ''attachment; filename='' @ quoted (filename example_paste))]
            [37, 80, 68, 70],
          example_world,
          [Select ''3f2a9c1e'',
           Update ''3f2a9c1e'' ''download_count'' (download_count example_paste + 1),
           StorageDownload (storage_path example_paste)])"
    using lim(2) hdr(3) served by blast
  have fields: "mimetype example_paste = ''application/pdf''"
    "filename example_paste = ''a.pdf''" "view_count example_paste = 0"
    "download_count example_paste = 0"
    "storage_path example_paste = ''uploads/3f2a9c1e-a.pdf''"
    by (simp_all add: example_paste_def)
  have view': "getPaste ?e example_world ''3f2a9c1e'' (Some ''secret'')
       = (Send [(''Content-Type'', ''application/pdf''),
                (''Content-Disposition'', ''inline; filename='' @ quoted ''a.pdf'')]
            [37, 80, 68, 70],
          example_world,
          [Select ''3f2a9c1e'', Update ''3f2a9c1e'' ''view_count'' 1,
           StorageDownload ''uploads/3f2a9c1e-a.pdf''])"
    unfolding view fields by simp
  have download': "downloadPaste ?e example_world ''3f2a9c1e''
       = (Send [(''Content-Type'', ''application/pdf''),
                (''Content-Disposition'', ''attachment; filename='' @ quoted ''a.pdf'')]
            [37, 80, 68, 70],
          example_world,
          [Select ''3f2a9c1e'', Update ''3f2a9c1e'' ''download_count'' 1,
           StorageDownload ''uploads/3f2a9c1e-a.pdf''])"
    unfolding download fields by simp
  from h1 example_loads h3 h4 h5 h6 h7 hdr(1) lim(1) gate hdr(2) view' fields(3)
    lim(2) hdr(3) download' fields(4)
  show ?thesis by (intro conjI)
qed

text \<open>
  C9. \<^verbatim>\<open>getPaste\<close> and \<^verbatim>\<open>downloadPaste\<close> read no blob when they deny: whenever
  the response is a JSON body, its status is one of 401, 403, 404, 410 and no
  storage download was issued. Conversely a storage download is issued only
  after the record loaded and passed the expiry, limit and password checks,
  and after the increment was issued.
\<close>

theorem blob_read_only_when_admitted:
  "(response_of (getPaste e w s password) = Json c b \<longrightarrow>
      c \<in> {401, 403, 404, 410}
      \<and> StorageDownload path \<notin> set (calls_of (getPaste e w s password)))
   \<and> (response_of (downloadPaste e w s) = Json c b \<longrightarrow>
      c \<in> {403, 404, 410}
      \<and> StorageDownload path \<notin> set (calls_of (downloadPaste e w s)))
   \<and> (StorageDownload path \<in> set (calls_of (getPaste e w s password)) \<longrightarrow>
        (\<exists>p. select_reply e = Resolves \<and> single (pastes_table w) s = Some p
           \<and> \<not> new_Date (expires_at p) \<le> now e
           \<and> \<not> limit_reached (max_views p) (view_count p)
           \<and> password_gate e (password_hash p) password = None
           \<and> calls_of (getPaste e w s password)
               = [Select s, Update s ''view_count'' (view_count p + 1),
                  StorageDownload (storage_path p)]))
   \<and> (StorageDownload path \<in> set (calls_of (downloadPaste e w s)) \<longrightarrow>
        (\<exists>p. select_reply e = Resolves \<and> single (pastes_table w) s = Some p
           \<and> \<not> new_Date (expires_at p) \<le> now e
           \<and> \<not> limit_reached (max_downloads p) (download_count p)
           \<and> calls_of (downloadPaste e w s)
               = [Select s, Update s ''download_count'' (download_count p + 1),
                  StorageDownload (storage_path p)]))"
proof -
  have gate_json: "password_gate e h pw = Some r \<Longrightarrow> \<exists>c b. r = Json c b \<and> c \<in> {401, 403}"
    for h pw r
    by (cases "(e, h, pw)" rule: password_gate.cases) (auto split: if_splits)
  have v1: "response_of (getPaste e w s password) = Json c b \<longrightarrow>
      c \<in> {401, 403, 404, 410}
      \<and> StorageDownload path \<notin> set (calls_of (getPaste e w s password))"
    by (cases "select_reply e")
      (auto simp: getPaste_def send_blob_def response_of_def calls_of_def Let_def
        dest: gate_json split: option.splits if_splits)
  have d1: "response_of (downloadPaste e w s) = Json c b \<longrightarrow>
      c \<in> {403, 404, 410}
      \<and> StorageDownload path \<notin> set (calls_of (downloadPaste e w s))"
    by (cases "select_reply e")
      (auto simp: downloadPaste_def send_blob_def response_of_def calls_of_def Let_def
        split: option.splits if_splits)
  have v2: "StorageDownload path \<in> set (calls_of (getPaste e w s password)) \<longrightarrow>
        (\<exists>p. select_reply e = Resolves \<and> single (pastes_table w) s = Some p
           \<and> \<not> new_Date (expires_at p) \<le> now e
           \<and> \<not> limit_reached (max_views p) (view_count p)
           \<and> password_gate e (password_hash p) password = None
           \<and> calls_of (getPaste e w s password)
               = [Select s, Update s ''view_count'' (view_count p + 1),
                  StorageDownload (storage_path p)])"
    by (cases "select_reply e")
      (auto simp: getPaste_def send_blob_def calls_of_def Let_def
        split: option.splits if_splits)
  have d2: "StorageDownload path \<in> set (calls_of (downloadPaste e w s)) \<longrightarrow>
        (\<exists>p. select_reply e = Resolves \<and> single (pastes_table w) s = Some p
           \<and> \<not> new_Date (expires_at p) \<le> now e
           \<and> \<not> limit_reached (max_downloads p) (download_count p)
           \<and> calls_of (downloadPaste e w s)
               = [Select s, Update s ''download_count'' (download_count p + 1),
                  StorageDownload (storage_path p)])"
    by (cases "select_reply e")
      (auto simp: downloadPaste_def send_blob_def calls_of_def Let_def
        split: option.splits if_splits)
  from v1 d1 v2 d2 show ?thesis by blast
qed

theorem blob_read_only_when_admitted_witness:
  "response_of (getPaste example_env example_world ''3f2a9c1e'' (Some ''wrong''))
     = Json 403 [(''type'', JStr ''invalid_password''), (''message'', JStr ''Invalid password'')]
   \<and> StorageDownload ''uploads/3f2a9c1e-a.pdf''
       \<notin> set (calls_of (getPaste example_env example_world ''3f2a9c1e'' (Some ''wrong'')))
   \<and> response_of (downloadPaste example_env spent_world ''3f2a9c1e'')
       = Json 403 [(''message'', JStr ''Maximum download limit reached'')]
   \<and> StorageDownload ''uploads/3f2a9c1e-a.pdf''
       \<notin> set (calls_of (downloadPaste example_env spent_world ''3f2a9c1e''))
   \<and> StorageDownload ''uploads/3f2a9c1e-a.pdf''
       \<in> set (calls_of (getPaste example_env example_world ''3f2a9c1e'' (Some ''secret'')))
   \<and> (\<exists>p. select_reply example_env = Resolves
          \<and> single (pastes_table example_world) ''3f2a9c1e'' = Some p
          \<and> \<not> new_Date (expires_at p) \<le> now example_env
          \<and> \<not> limit_reached (max_views p) (view_count p)
          \<and> password_gate example_env (password_hash p) (Some ''secret'') = None
          \<and> calls_of (getPaste example_env example_world ''3f2a9c1e'' (Some ''secret''))
              = [Select ''3f2a9c1e'', Update ''3f2a9c1e'' ''view_count'' (view_count p + 1),
                 StorageDownload (storage_path p)])
   \<and> StorageDownload ''uploads/3f2a9c1e-a.pdf''
       \<in> set (calls_of (downloadPaste example_env example_world ''3f2a9c1e''))
   \<and> (\<exists>p. select_reply example_env = Resolves
          \<and> single (pastes_table example_world) ''3f2a9c1e'' = Some p
          \<and> \<not> new_Date (expires_at p) \<le> now example_env
          \<and> \<not> limit_reached (max_downloads p) (download_count p)
          \<and> calls_of (downloadPaste example_env example_world ''3f2a9c1e'')
              = [Select ''3f2a9c1e'', Update ''3f2a9c1e'' ''download_count'' (download_count p + 1),
                 StorageDownload (storage_path p)])"
proof -
  have denied_view:
    "response_of (getPaste example_env example_world ''3f2a9c1e'' (Some ''wrong''))
     = Json 403 [(''type'', JStr ''invalid_password''), (''message'', JStr ''Invalid password'')]"
    by (simp add: response_of_def getPaste_def example_env_def example_world_def
        example_paste_def single_def)
  have denied_download:
    "response_of (downloadPaste example_env spent_world ''3f2a9c1e'')
       = Json 403 [(''message'', JStr ''Maximum download limit reached'')]"
    by (simp add: response_of_def downloadPaste_def example_env_def spent_world_def
        spent_paste_def example_world_def example_paste_def single_def)
  have read_view: "StorageDownload ''uploads/3f2a9c1e-a.pdf''
       \<in> set (calls_of (getPaste example_env example_world ''3f2a9c1e'' (Some ''secret'')))"
    by (simp add: calls_of_def getPaste_def send_blob_def Let_def example_env_def
        example_world_def example_paste_def single_def ascii_header_def header_char_def)
  have read_download: "StorageDownload ''uploads/3f2a9c1e-a.pdf''
       \<in> set (calls_of (downloadPaste example_env example_world ''3f2a9c1e''))"
    by (simp add: calls_of_def downloadPaste_def send_blob_def Let_def example_env_def
        example_world_def example_paste_def single_def ascii_header_def header_char_def)
  have c1: "StorageDownload ''uploads/3f2a9c1e-a.pdf''
       \<notin> set (calls_of (getPaste example_env example_world ''3f2a9c1e'' (Some ''wrong'')))"
    using denied_view
      blob_read_only_when_admitted [where e = example_env and w = example_world
        and s = "''3f2a9c1e''" and password = "Some ''wrong''" and c = 403
        and b = "[(''type'', JStr ''invalid_password''), (''message'', JStr ''Invalid password'')]"
        and path = "''uploads/3f2a9c1e-a.pdf''"]
    by blast
  have c2: "StorageDownload ''uploads/3f2a9c1e-a.pdf''
       \<notin> set (calls_of (downloadPaste example_env spent_world ''3f2a9c1e''))"
    using denied_download
      blob_read_only_when_admitted [where e = example_env and w = spent_world
        and s = "''3f2a9c1e''" and password = None and c = 403
        and b = "[(''message'', JStr ''Maximum download limit reached'')]"
        and path = "''uploads/3f2a9c1e-a.pdf''"]
    by blast
  note admitted = blob_read_only_when_admitted [where e = example_env and w = example_world
        and s = "''3f2a9c1e''" and password = "Some ''secret''" and c = 200 and b = "[]"
        and path = "''uploads/3f2a9c1e-a.pdf''"]
  have c3: "\<exists>p. select_reply example_env = Resolves
          \<and> single (pastes_table example_world) ''3f2a9c1e'' = Some p
          \<and> \<not> new_Date (expires_at p) \<le> now example_env
          \<and> \<not> limit_reached (max_views p) (view_count p)
          \<and> password_gate example_env (password_hash p) (Some ''secret'') = None
          \<and> calls_of (getPaste example_env example_world ''3f2a9c1e'' (Some ''secret''))
              = [Select ''3f2a9c1e'', Update ''3f2a9c1e'' ''view_count'' (view_count p + 1),
                 StorageDownload (storage_path p)]"
    using read_view admitted [THEN conjunct2, THEN conjunct2, THEN conjunct1] by (rule rev_mp)
  have c4: "\<exists>p. select_reply example_env = Resolves
          \<and> single (pastes_table example_world) ''3f2a9c1e'' = Some p
          \<and> \<not> new_Date (expires_at p) \<le> now example_env
          \<and> \<not> limit_reached (max_downloads p) (download_count p)
          \<and> calls_of (downloadPaste example_env example_world ''3f2a9c1e'')
              = [Select ''3f2a9c1e'', Update ''3f2a9c1e'' ''download_count'' (download_count p + 1),
                 StorageDownload (storage_path p)]"
    using read_download admitted [THEN conjunct2, THEN conjunct2, THEN conjunct2]
    by (rule rev_mp)
  from denied_view c1 denied_download c2 read_view c3 read_download c4
  show ?thesis by (intro conjI)
qed

text \<open>
  C10. On an admitted View or Download the increment is written before the
  blob is read: when the download then fails (the call throws, resolves with
  an error, or the object is missing), the handler ends in \<^verbatim>\<open>next(err)\<close>, the
  calls were select, update, download in this order, and the row keeps the
  incremented counter.
\<close>

theorem increment_survives_failed_delivery:
  assumes "select_reply e = Resolves" and "single (pastes_table w) s = Some p"
    and "expires_at p = Some t" and "now e < t" and "update_reply e = Resolves"
    and "download_reply e \<noteq> Resolves \<or> map_of (pastes_bucket w) (storage_path p) = None"
  shows "(\<not> limit_reached (max_views p) (view_count p)
          \<and> password_gate e (password_hash p) password = None \<longrightarrow>
            calls_of (getPaste e w s password)
              = [Select s, Update s ''view_count'' (view_count p + 1),
                 StorageDownload (storage_path p)]
            \<and> (\<exists>err. response_of (getPaste e w s password) = Next err)
            \<and> single (pastes_table (world_of (getPaste e w s password))) s
                = Some (p\<lparr>view_count := view_count p + 1\<rparr>))
       \<and> (\<not> limit_reached (max_downloads p) (download_count p) \<longrightarrow>
            calls_of (downloadPaste e w s)
              = [Select s, Update s ''download_count'' (download_count p + 1),
                 StorageDownload (storage_path p)]
            \<and> (\<exists>err. response_of (downloadPaste e w s) = Next err)
            \<and> single (pastes_table (world_of (downloadPaste e w s))) s
                = Some (p\<lparr>download_count := download_count p + 1\<rparr>))"
proof -
  have live: "\<not> new_Date (expires_at p) \<le> now e"
    using assms(3,4) by simp
  have upd: "update_reply e \<noteq> Rejects"
    using assms(5) by simp
  have blob: "download_reply e \<noteq> Resolves
      \<or> map_of (pastes_bucket (db_update (update_reply e) f s w)) (storage_path p) = None"
    for f
    using assms(5,6) by simp
  have view: "calls_of (getPaste e w s password)
              = [Select s, Update s ''view_count'' (view_count p + 1),
                 StorageDownload (storage_path p)]
            \<and> (\<exists>err. response_of (getPaste e w s password) = Next err)
            \<and> single (pastes_table (world_of (getPaste e w s password))) s
                = Some (p\<lparr>view_count := view_count p + 1\<rparr>)"
    if "\<not> limit_reached (max_views p) (view_count p)"
      and "password_gate e (password_hash p) password = None"
  proof -
    note run = getPaste_admitted [OF assms(1,2) live that upd]
    have "single (pastes_table (world_of (getPaste e w s password))) s
            = Some (p\<lparr>view_count := view_count p + 1\<rparr>)"
      using single_patch [OF assms(2), of "\<lambda>r. r\<lparr>view_count := view_count p + 1\<rparr>"] assms(5)
      by (simp add: run send_blob_world)
    then show ?thesis
      using send_blob_fails [OF blob] by (simp add: run send_blob_calls)
  qed
  have download: "calls_of (downloadPaste e w s)
              = [Select s, Update s ''download_count'' (download_count p + 1),
                 StorageDownload (storage_path p)]
            \<and> (\<exists>err. response_of (downloadPaste e w s) = Next err)
            \<and> single (pastes_table (world_of (downloadPaste e w s))) s
                = Some (p\<lparr>download_count := download_count p + 1\<rparr>)"
    if "\<not> limit_reached (max_downloads p) (download_count p)"
  proof -
    note run = downloadPaste_admitted [OF assms(1,2) live that upd]
    have "single (pastes_table (world_of (downloadPaste e w s))) s
            = Some (p\<lparr>download_count := download_count p + 1\<rparr>)"
      using single_patch [OF assms(2), of "\<lambda>r. r\<lparr>download_count := download_count p + 1\<rparr>"]
        assms(5)
      by (simp add: run send_blob_world)
    then show ?thesis
      using send_blob_fails [OF blob] by (simp add: run send_blob_calls)
  qed
  from view download show ?thesis by blast
qed

theorem increment_survives_failed_delivery_witness:
  "select_reply (example_env\<lparr>download_reply := ResolvesError\<rparr>) = Resolves
   \<and> single (pastes_table example_world) ''3f2a9c1e'' = Some example_paste
   \<and> expires_at example_paste = Some 2000
   \<and> now (example_env\<lparr>download_reply := ResolvesError\<rparr>) < 2000
   \<and> update_reply (example_env\<lparr>download_reply := ResolvesError\<rparr>) = Resolves
   \<and> download_reply (example_env\<lparr>download_reply := ResolvesError\<rparr>) \<noteq> Resolves
   \<and> \<not> limit_reached (max_views example_paste) (view_count example_paste)
   \<and> password_gate (example_env\<lparr>download_reply := ResolvesError\<rparr>)
         (password_hash example_paste) (Some ''secret'') = None
   \<and> calls_of (getPaste (example_env\<lparr>download_reply := ResolvesError\<rparr>) example_world
                  ''3f2a9c1e'' (Some ''secret''))
       = [Select ''3f2a9c1e'', Update ''3f2a9c1e'' ''view_count'' 1,
          StorageDownload ''uploads/3f2a9c1e-a.pdf'']
   \<and> (\<exists>err. response_of (getPaste (example_env\<lparr>download_reply := ResolvesError\<rparr>)
                              example_world ''3f2a9c1e'' (Some ''secret'')) = Next err)
   \<and> single (pastes_table (world_of (getPaste (example_env\<lparr>download_reply := ResolvesError\<rparr>)
                                        example_world ''3f2a9c1e'' (Some ''secret''))))
        ''3f2a9c1e''
       = Some (example_paste\<lparr>view_count := 1\<rparr>)
   \<and> \<not> limit_reached (max_downloads example_paste) (download_count example_paste)
   \<and> calls_of (downloadPaste (example_env\<lparr>download_reply := ResolvesError\<rparr>) example_world
                  ''3f2a9c1e'')
       = [Select ''3f2a9c1e'', Update ''3f2a9c1e'' ''download_count'' 1,
          StorageDownload ''uploads/3f2a9c1e-a.pdf'']
   \<and> (\<exists>err. response_of (downloadPaste (example_env\<lparr>download_reply := ResolvesError\<rparr>)
                              example_world ''3f2a9c1e'') = Next err)
   \<and> single (pastes_table (world_of (downloadPaste
                                        (example_env\<lparr>download_reply := ResolvesError\<rparr>)
                                        example_world ''3f2a9c1e'')))
        ''3f2a9c1e''
       = Some (example_paste\<lparr>download_count := 1\<rparr>)"
proof -
  let ?e = "example_env\<lparr>download_reply := ResolvesError\<rparr>"
  have h1: "select_reply ?e = Resolves" and h5: "update_reply ?e = Resolves"
    by (simp_all add: example_env_def)
  have h3: "expires_at example_paste = Some 2000" and h4: "now ?e < 2000"
    using example_live by simp_all
  have h6: "download_reply ?e \<noteq> Resolves
      \<or> map_of (pastes_bucket example_world) (storage_path example_paste) = None"
    by simp
  have lim: "\<not> limit_reached (max_views example_paste) (view_count example_paste)"
    "\<not> limit_reached (max_downloads example_paste) (download_count example_paste)"
    by (simp_all add: example_paste_def)
  have gate: "password_gate ?e (password_hash example_paste) (Some ''secret'') = None"
    by (simp add: example_env_def example_paste_def)
  note spent = increment_survives_failed_delivery [OF h1 example_loads h3 h4 h5 h6,
      where password = "Some ''secret''"]
  have view:
    "calls_of (getPaste ?e example_world ''3f2a9c1e'' (Some ''secret''))
       = [Select ''3f2a9c1e'', Update ''3f2a9c1e'' ''view_count'' (view_count example_paste + 1),
          StorageDownload (storage_path example_paste)]"
    "\<exists>err. response_of (getPaste ?e example_world ''3f2a9c1e'' (Some ''secret'')) = Next err"
    "single (pastes_table (world_of (getPaste ?e example_world ''3f2a9c1e'' (Some ''secret''))))
        ''3f2a9c1e''
       = Some (example_paste\<lparr>view_count := view_count example_paste + 1\<rparr>)"
    using lim(1) gate spent by blast+
  have download:
    "calls_of (downloadPaste ?e example_world ''3f2a9c1e'')
       = [Select ''3f2a9c1e'',
          Update ''3f2a9c1e'' ''download_count'' (download_count example_paste + 1),
          StorageDownload (storage_path example_paste)]"
    "\<exists>err. response_of (downloadPaste ?e example_world ''3f2a9c1e'') = Next err"
    "single (pastes_table (world_of (downloadPaste ?e example_world ''3f2a9c1e''))) ''3f2a9c1e''
       = Some (example_paste\<lparr>download_count := download_count example_paste + 1\<rparr>)"
    using lim(2) spent by blast+
  have given: "view_count example_paste = 0" "download_count example_paste = 0"
    "storage_path example_paste = ''uploads/3f2a9c1e-a.pdf''"
    by (simp_all add: example_paste_def)
  show ?thesis
    using h1 example_loads h3 h4 h5 lim gate view download by (simp add: given)
qed

subsection \<open>Preview\<close>

text \<open>
  C7. \<^verbatim>\<open>previewPaste\<close> changes neither table nor bucket, so a second Preview sees
  what the first saw; it issues a select and at most one storage download,
  never an update; and for every record that loads and whose blob downloads it
  answers 200 with the metadata and the file, whatever the counters and limits
  (so also when \<^verbatim>\<open>view_count\<close> equals \<^verbatim>\<open>max_views\<close>).
\<close>

theorem preview_is_a_peek:
  "world_of (previewPaste e w s) = w
   \<and> previewPaste e' (world_of (previewPaste e w s)) s' = previewPaste e' w s'
   \<and> (calls_of (previewPaste e w s) = [Select s]
        \<or> (\<exists>path. calls_of (previewPaste e w s) = [Select s, StorageDownload path]))
   \<and> (select_reply e = Resolves \<and> single (pastes_table w) s = Some p
        \<and> download_reply e = Resolves
        \<and> map_of (pastes_bucket w) (storage_path p) = Some buf \<longrightarrow>
      response_of (previewPaste e w s)
        = Json 200
            [(''metadata'',
                JObj [(''slug'', JStr (slug p)), (''filename'', JStr (filename p)),
                      (''mimetype'', JStr (mimetype p)),
                      (''created_at'', JNum (created_at p)),
                      (''expires_at'', nullable (expires_at p)),
                      (''view_count'', JNum (view_count p)),
                      (''download_count'', JNum (download_count p)),
                      (''max_views'', nullable (max_views p)),
                      (''max_downloads'', nullable (max_downloads p)),
                      (''password_protected'', JBool (truthy (password_hash p)))]),
             (''file'', JBase64 buf),
             (''mimetype'', JStr (mimetype p))])"
proof -
  have frame: "world_of (previewPaste e w s) = w" for e w s
    by (simp add: previewPaste_def world_of_def Let_def split: option.splits)
  have calls: "calls_of (previewPaste e w s) = [Select s]
        \<or> (\<exists>path. calls_of (previewPaste e w s) = [Select s, StorageDownload path])"
    by (simp add: previewPaste_def calls_of_def Let_def split: option.splits)
  have served: "select_reply e = Resolves \<and> single (pastes_table w) s = Some p
        \<and> download_reply e = Resolves
        \<and> map_of (pastes_bucket w) (storage_path p) = Some buf \<longrightarrow>
      response_of (previewPaste e w s)
        = Json 200
            [(''metadata'',
                JObj [(''slug'', JStr (slug p)), (''filename'', JStr (filename p)),
                      (''mimetype'', JStr (mimetype p)),
                      (''created_at'', JNum (created_at p)),
                      (''expires_at'', nullable (expires_at p)),
                      (''view_count'', JNum (view_count p)),
                      (''download_count'', JNum (download_count p)),
                      (''max_views'', nullable (max_views p)),
                      (''max_downloads'', nullable (max_downloads p)),
                      (''password_protected'', JBool (truthy (password_hash p)))]),
             (''file'', JBase64 buf),
             (''mimetype'', JStr (mimetype p))]"
    by (simp add: previewPaste_def Let_def response_of_def)
  from frame calls served show ?thesis by simp
qed

theorem preview_is_a_peek_witness:
  "select_reply example_env = Resolves
   \<and> single (pastes_table spent_world) ''3f2a9c1e'' = Some spent_paste
   \<and> download_reply example_env = Resolves
   \<and> map_of (pastes_bucket spent_world) (storage_path spent_paste) = Some [37, 80, 68, 70]
   \<and> max_views spent_paste = Some (view_count spent_paste)
   \<and> world_of (previewPaste example_env spent_world ''3f2a9c1e'') = spent_world
   \<and> previewPaste example_env
         (world_of (previewPaste example_env spent_world ''3f2a9c1e'')) ''3f2a9c1e''
       = previewPaste example_env spent_world ''3f2a9c1e''
   \<and> response_of (previewPaste example_env spent_world ''3f2a9c1e'')
       = Json 200
           [(''metadata'',
              JObj [(''slug'', JStr ''3f2a9c1e''), (''filename'', JStr ''a.pdf''),
                    (''mimetype'', JStr ''application/pdf''), (''created_at'', JNum 500),
                    (''expires_at'', JNum 2000), (''view_count'', JNum 3),
                    (''download_count'', JNum 2), (''max_views'', JNum 3),
                    (''max_downloads'', JNum 2), (''password_protected'', JBool True)]),
            (''file'', JBase64 [37, 80, 68, 70]),
            (''mimetype'', JStr ''application/pdf'')]"
proof -
  have h1: "select_reply example_env = Resolves" "download_reply example_env = Resolves"
    by (simp_all add: example_env_def)
  have h2: "map_of (pastes_bucket spent_world) (storage_path spent_paste) = Some [37, 80, 68, 70]"
    by (simp add: spent_world_def spent_paste_def example_world_def example_paste_def)
  have h3: "max_views spent_paste = Some (view_count spent_paste)"
    by (simp add: spent_paste_def example_paste_def)
  note peek = preview_is_a_peek [where e = example_env and w = spent_world
      and s = "''3f2a9c1e''" and e' = example_env and s' = "''3f2a9c1e''"
      and p = spent_paste and buf = "[37, 80, 68, 70]"]
  have frame: "world_of (previewPaste example_env spent_world ''3f2a9c1e'') = spent_world"
    "previewPaste example_env
         (world_of (previewPaste example_env spent_world ''3f2a9c1e'')) ''3f2a9c1e''
       = previewPaste example_env spent_world ''3f2a9c1e''"
    using peek by blast+
  have served: "response_of (previewPaste example_env spent_world ''3f2a9c1e'')
       = Json 200
           [(''metadata'',
              JObj [(''slug'', JStr (slug spent_paste)),
                    (''filename'', JStr (filename spent_paste)),
                    (''mimetype'', JStr (mimetype spent_paste)),
                    (''created_at'', JNum (created_at spent_paste)),
                    (''expires_at'', nullable (expires_at spent_paste)),
                    (''view_count'', JNum (view_count spent_paste)),
                    (''download_count'', JNum (download_count spent_paste)),
                    (''max_views'', nullable (max_views spent_paste)),
                    (''max_downloads'', nullable (max_downloads spent_paste)),
                    (''password_protected'', JBool (truthy (password_hash spent_paste)))]),
            (''file'', JBase64 [37, 80, 68, 70]),
            (''mimetype'', JStr (mimetype spent_paste))]"
    using h1 h2 spent_loads peek by blast
  have fields: "slug spent_paste = ''3f2a9c1e''" "filename spent_paste = ''a.pdf''"
    "mimetype spent_paste = ''application/pdf''" "created_at spent_paste = 500"
    "expires_at spent_paste = Some 2000" "view_count spent_paste = 3"
    "download_count spent_paste = 2" "max_views spent_paste = Some 3"
    "max_downloads spent_paste = Some 2" "password_hash spent_paste = Some ''h:secret''"
    by (simp_all add: spent_paste_def example_paste_def)
  show ?thesis
    using h1 h2 h3 spent_loads frame served by (simp add: fields)
qed

subsection \<open>Creation and deletion\<close>

lemma createPaste_unchecked_upload:
  assumes "truthy (body_user_id body)" and "body_expires_in body = Some v" and "v \<noteq> []"
    and "Number_js e v = Num m" and "0 < m"
    and "upload_reply e = ResolvesError" and "insert_reply e = Resolves"
  shows "createPaste e w body (Some f)
      = (Json 201
           [(''url'', JStr (backend_base_url e @ ''/api/pastes/'' @ take 8 (randomUUID e))),
            (''protected'',
               JBool (truthy (case body_password body of
                                None \<Rightarrow> None
                              | Some pw \<Rightarrow>
                                  if String_trim e pw \<noteq> [] then Some (bcrypt_hash e pw)
                                  else None)))],
         w\<lparr>pastes_table := pastes_table w @
            [db_row e
               \<lparr>new_slug = take 8 (randomUUID e),
                new_user_id = (case body_user_id body of None \<Rightarrow> [] | Some u \<Rightarrow> u),
                new_filename = originalname f,
                new_mimetype = file_mimetype f,
                new_storage_path = ''uploads/'' @ take 8 (randomUUID e) @ ''-'' @ originalname f,
                new_password_hash =
                  (case body_password body of
                     None \<Rightarrow> None
                   | Some pw \<Rightarrow> if String_trim e pw \<noteq> [] then Some (bcrypt_hash e pw)
                                  else None),
                new_expires_at = expiry e (Num m),
                new_max_views = limit_field e (body_max_views body),
                new_max_downloads = limit_field e (body_max_downloads body)\<rparr>]\<rparr>,
         [StorageUpload (''uploads/'' @ take 8 (randomUUID e) @ ''-'' @ originalname f),
          Insert (take 8 (randomUUID e))])"
  using assms by (simp add: createPaste_def Let_def)

text \<open>When the upload throws, the error is forwarded and nothing is inserted.\<close>

lemma createPaste_upload_rejects:
  assumes "truthy (body_user_id body)" and "body_expires_in body = Some v" and "v \<noteq> []"
    and "Number_js e v = Num m" and "0 < m" and "upload_reply e = Rejects"
  shows "createPaste e w body (Some f)
         = (Next (Rejected (StorageUpload
                    (''uploads/'' @ take 8 (randomUUID e) @ ''-'' @ originalname f))),
            w,
            [StorageUpload (''uploads/'' @ take 8 (randomUUID e) @ ''-'' @ originalname f)])"
  using assms by (simp add: createPaste_def Let_def)

text \<open>
  C3 says that a failed upload makes \<^verbatim>\<open>createPaste\<close> fail and insert nothing.
  The upload is issued before the insert, but its \<^verbatim>\<open>{ data, error }\<close> result is
  never looked at: when the upload resolves with an error, a valid request
  still inserts its row and answers 201, and the bucket holds no object for
  the row's \<^verbatim>\<open>storage_path\<close>.
\<close>

theorem createPaste_ignores_upload_error:
  assumes "truthy (body_user_id body)" and "body_expires_in body = Some v" and "v \<noteq> []"
    and "Number_js e v = Num m" and "0 < m"
    and "upload_reply e = ResolvesError" and "insert_reply e = Resolves"
  shows "(\<exists>b. response_of (createPaste e w body (Some f)) = Json 201 b)
       \<and> pastes_bucket (world_of (createPaste e w body (Some f))) = pastes_bucket w
       \<and> (\<exists>obj. pastes_table (world_of (createPaste e w body (Some f)))
                   = pastes_table w @ [db_row e obj]
              \<and> new_slug obj = take 8 (randomUUID e)
              \<and> new_storage_path obj
                  = ''uploads/'' @ take 8 (randomUUID e) @ ''-'' @ originalname f)
       \<and> calls_of (createPaste e w body (Some f))
           = [StorageUpload (''uploads/'' @ take 8 (randomUUID e) @ ''-'' @ originalname f),
              Insert (take 8 (randomUUID e))]"
proof -
  let ?obj = "\<lparr>new_slug = take 8 (randomUUID e),
                new_user_id = (case body_user_id body of None \<Rightarrow> [] | Some u \<Rightarrow> u),
                new_filename = originalname f,
                new_mimetype = file_mimetype f,
                new_storage_path = ''uploads/'' @ take 8 (randomUUID e) @ ''-'' @ originalname f,
                new_password_hash =
                  (case body_password body of
                     None \<Rightarrow> None
                   | Some pw \<Rightarrow> if String_trim e pw \<noteq> [] then Some (bcrypt_hash e pw)
                                  else None),
                new_expires_at = expiry e (Num m),
                new_max_views = limit_field e (body_max_views body),
                new_max_downloads = limit_field e (body_max_downloads body)\<rparr>"
  note run = createPaste_unchecked_upload [OF assms, of w f]
  have "pastes_table (world_of (createPaste e w body (Some f)))
          = pastes_table w @ [db_row e ?obj]
        \<and> new_slug ?obj = take 8 (randomUUID e)
        \<and> new_storage_path ?obj
            = ''uploads/'' @ take 8 (randomUUID e) @ ''-'' @ originalname f"
    by (simp add: run world_of_def)
  then have row: "\<exists>obj. pastes_table (world_of (createPaste e w body (Some f)))
                   = pastes_table w @ [db_row e obj]
              \<and> new_slug obj = take 8 (randomUUID e)
              \<and> new_storage_path obj
                  = ''uploads/'' @ take 8 (randomUUID e) @ ''-'' @ originalname f"
    by (rule exI [of _ ?obj])
  have rest: "\<exists>b. response_of (createPaste e w body (Some f)) = Json 201 b"
    "pastes_bucket (world_of (createPaste e w body (Some f))) = pastes_bucket w"
    "calls_of (createPaste e w body (Some f))
           = [StorageUpload (''uploads/'' @ take 8 (randomUUID e) @ ''-'' @ originalname f),
              Insert (take 8 (randomUUID e))]"
    by (simp_all add: run response_of_def world_of_def calls_of_def)
  from rest row show ?thesis by (intro conjI)
qed

theorem createPaste_ignores_upload_error_witness:
  "truthy (body_user_id example_body) \<and> body_expires_in example_body = Some ''60''
   \<and> ''60'' \<noteq> [] \<and> Number_js (example_env\<lparr>upload_reply := ResolvesError\<rparr>) ''60'' = Num 60
   \<and> (0::rat) < 60
   \<and> upload_reply (example_env\<lparr>upload_reply := ResolvesError\<rparr>) = ResolvesError
   \<and> insert_reply (example_env\<lparr>upload_reply := ResolvesError\<rparr>) = Resolves
   \<and> (\<exists>b. response_of (createPaste (example_env\<lparr>upload_reply := ResolvesError\<rparr>)
                          example_world example_body (Some example_file)) = Json 201 b)
   \<and> pastes_bucket (world_of (createPaste (example_env\<lparr>upload_reply := ResolvesError\<rparr>)
                                 example_world example_body (Some example_file)))
       = [(''uploads/3f2a9c1e-a.pdf'', [37, 80, 68, 70])]
   \<and> (\<exists>obj. pastes_table (world_of (createPaste (example_env\<lparr>upload_reply := ResolvesError\<rparr>)
                                       example_world example_body (Some example_file)))
               = [example_paste, stored_row 1000 obj]
            \<and> new_slug obj = ''7b1d4e0a''
            \<and> new_storage_path obj = ''uploads/7b1d4e0a-b.txt'')
   \<and> calls_of (createPaste (example_env\<lparr>upload_reply := ResolvesError\<rparr>)
                  example_world example_body (Some example_file))
       = [StorageUpload ''uploads/7b1d4e0a-b.txt'', Insert ''7b1d4e0a'']
   \<and> map_of [(''uploads/3f2a9c1e-a.pdf'', [37, 80, 68, 70 :: nat])] ''uploads/7b1d4e0a-b.txt''
       = None"
proof -
  have h1: "truthy (body_user_id example_body)"
    and h2: "body_expires_in example_body = Some ''60''"
    by (simp_all add: example_body_def)
  have h3: "''60'' \<noteq> []"
    by simp
  have h4: "Number_js (example_env\<lparr>upload_reply := ResolvesError\<rparr>) ''60'' = Num 60"
    by (simp add: example_env_def)
  have h5: "(0::rat) < 60"
    by simp
  have h6: "upload_reply (example_env\<lparr>upload_reply := ResolvesError\<rparr>) = ResolvesError"
    by simp
  have h7: "insert_reply (example_env\<lparr>upload_reply := ResolvesError\<rparr>) = Resolves"
    by (simp add: example_env_def)
  have given: "pastes_bucket example_world = [(''uploads/3f2a9c1e-a.pdf'', [37, 80, 68, 70])]"
    "pastes_table example_world = [example_paste]"
    "take 8 (randomUUID example_env) = ''7b1d4e0a''"
    "originalname example_file = ''b.txt''"
    "db_row example_env = stored_row 1000"
    by (simp_all add: example_world_def example_env_def example_file_def)
  show ?thesis
    using h1 h2 h4 h7 given
      createPaste_ignores_upload_error [OF h1 h2 h3 h4 h5 h6 h7, of example_world example_file]
    by simp
qed

text \<open>
  C6. \<^verbatim>\<open>deletePaste\<close> loads the record first and answers 404 for an unknown slug;
  when the removal of the blob resolves with an error it answers 500 and
  leaves table and bucket as they were, and so when the removal throws; only
  after a successful removal is the delete of the row issued, and when that
  succeeds the answer is 200 and the table has lost the rows of the slug.
\<close>

theorem delete_blob_then_row:
  "(select_reply e = Resolves \<and> s \<notin> slug ` set (pastes_table w) \<longrightarrow>
      deletePaste e w s
        = (Json 404 [(''message'', JStr ''Paste not found'')], w, [Select s]))
   \<and> (select_reply e = Resolves \<and> single (pastes_table w) s = Some p
        \<and> remove_reply e = ResolvesError \<longrightarrow>
      deletePaste e w s
        = (Json 500 [(''message'', JStr ''Failed to delete file from storage'')], w,
           [Select s, StorageRemove (storage_path p)]))
   \<and> (select_reply e = Resolves \<and> single (pastes_table w) s = Some p
        \<and> remove_reply e = Rejects \<longrightarrow>
      deletePaste e w s
        = (Next (Rejected (StorageRemove (storage_path p))), w,
           [Select s, StorageRemove (storage_path p)]))
   \<and> (select_reply e = Resolves \<and> single (pastes_table w) s = Some p
        \<and> remove_reply e = Resolves \<longrightarrow>
      calls_of (deletePaste e w s) = [Select s, StorageRemove (storage_path p), Delete s]
      \<and> map_of (pastes_bucket (world_of (deletePaste e w s))) (storage_path p) = None)
   \<and> (select_reply e = Resolves \<and> single (pastes_table w) s = Some p
        \<and> remove_reply e = Resolves \<and> delete_reply e = Resolves \<longrightarrow>
      response_of (deletePaste e w s)
        = Json 200 [(''message'', JStr ''File deleted successfully'')]
      \<and> pastes_table (world_of (deletePaste e w s))
          = filter (\<lambda>r. slug r \<noteq> s) (pastes_table w))
   \<and> (Delete s' \<in> set (calls_of (deletePaste e w s)) \<longrightarrow> remove_reply e = Resolves)"
proof -
  have c1: "select_reply e = Resolves \<and> s \<notin> slug ` set (pastes_table w) \<longrightarrow>
      deletePaste e w s
        = (Json 404 [(''message'', JStr ''Paste not found'')], w, [Select s])"
    by (simp add: deletePaste_def Let_def single_unknown)
  have c2: "select_reply e = Resolves \<and> single (pastes_table w) s = Some p
        \<and> remove_reply e = ResolvesError \<longrightarrow>
      deletePaste e w s
        = (Json 500 [(''message'', JStr ''Failed to delete file from storage'')], w,
           [Select s, StorageRemove (storage_path p)])"
    by (simp add: deletePaste_def Let_def)
  have c3: "select_reply e = Resolves \<and> single (pastes_table w) s = Some p
        \<and> remove_reply e = Rejects \<longrightarrow>
      deletePaste e w s
        = (Next (Rejected (StorageRemove (storage_path p))), w,
           [Select s, StorageRemove (storage_path p)])"
    by (simp add: deletePaste_def Let_def)
  have c4: "select_reply e = Resolves \<and> single (pastes_table w) s = Some p
        \<and> remove_reply e = Resolves \<longrightarrow>
      calls_of (deletePaste e w s) = [Select s, StorageRemove (storage_path p), Delete s]
      \<and> map_of (pastes_bucket (world_of (deletePaste e w s))) (storage_path p) = None"
    by (cases "delete_reply e")
      (simp_all add: deletePaste_def Let_def calls_of_def world_of_def map_of_removed)
  have c5: "select_reply e = Resolves \<and> single (pastes_table w) s = Some p
        \<and> remove_reply e = Resolves \<and> delete_reply e = Resolves \<longrightarrow>
      response_of (deletePaste e w s)
        = Json 200 [(''message'', JStr ''File deleted successfully'')]
      \<and> pastes_table (world_of (deletePaste e w s))
          = filter (\<lambda>r. slug r \<noteq> s) (pastes_table w)"
    by (simp add: deletePaste_def Let_def response_of_def world_of_def)
  have c6: "Delete s' \<in> set (calls_of (deletePaste e w s)) \<longrightarrow> remove_reply e = Resolves"
    by (cases "remove_reply e")
      (auto simp: deletePaste_def calls_of_def Let_def split: option.splits if_splits)
  from c1 c2 c3 c4 c5 c6 show ?thesis by blast
qed

theorem delete_blob_then_row_witness:
  "select_reply example_env = Resolves
   \<and> ''0badc0de'' \<notin> slug ` set (pastes_table example_world)
   \<and> deletePaste example_env example_world ''0badc0de''
       = (Json 404 [(''message'', JStr ''Paste not found'')], example_world,
          [Select ''0badc0de''])
   \<and> single (pastes_table example_world) ''3f2a9c1e'' = Some example_paste
   \<and> deletePaste (example_env\<lparr>remove_reply := ResolvesError\<rparr>) example_world ''3f2a9c1e''
       = (Json 500 [(''message'', JStr ''Failed to delete file from storage'')],
          example_world, [Select ''3f2a9c1e'', StorageRemove ''uploads/3f2a9c1e-a.pdf''])
   \<and> deletePaste (example_env\<lparr>remove_reply := Rejects\<rparr>) example_world ''3f2a9c1e''
       = (Next (Rejected (StorageRemove ''uploads/3f2a9c1e-a.pdf'')),
          example_world, [Select ''3f2a9c1e'', StorageRemove ''uploads/3f2a9c1e-a.pdf''])
   \<and> remove_reply example_env = Resolves \<and> delete_reply example_env = Resolves
   \<and> calls_of (deletePaste example_env example_world ''3f2a9c1e'')
       = [Select ''3f2a9c1e'', StorageRemove ''uploads/3f2a9c1e-a.pdf'', Delete ''3f2a9c1e'']
   \<and> map_of (pastes_bucket (world_of (deletePaste example_env example_world ''3f2a9c1e'')))
        ''uploads/3f2a9c1e-a.pdf'' = None
   \<and> response_of (deletePaste example_env example_world ''3f2a9c1e'')
       = Json 200 [(''message'', JStr ''File deleted successfully'')]
   \<and> pastes_table (world_of (deletePaste example_env example_world ''3f2a9c1e'')) = []"
proof -
  have h1: "select_reply example_env = Resolves" "remove_reply example_env = Resolves"
    "delete_reply example_env = Resolves"
    by (simp_all add: example_env_def)
  have h2: "''0badc0de'' \<notin> slug ` set (pastes_table example_world)"
    by (simp add: example_world_def example_paste_def)
  have fail: "select_reply (example_env\<lparr>remove_reply := ResolvesError\<rparr>) = Resolves"
    "remove_reply (example_env\<lparr>remove_reply := ResolvesError\<rparr>) = ResolvesError"
    "select_reply (example_env\<lparr>remove_reply := Rejects\<rparr>) = Resolves"
    "remove_reply (example_env\<lparr>remove_reply := Rejects\<rparr>) = Rejects"
    by (simp_all add: example_env_def)
  have given: "storage_path example_paste = ''uploads/3f2a9c1e-a.pdf''"
    "filter (\<lambda>r. slug r \<noteq> ''3f2a9c1e'') (pastes_table example_world) = []"
    by (simp_all add: example_world_def example_paste_def)
  have unknown: "deletePaste example_env example_world ''0badc0de''
       = (Json 404 [(''message'', JStr ''Paste not found'')], example_world,
          [Select ''0badc0de''])"
    using h1(1) h2
      delete_blob_then_row [where e = example_env and w = example_world
        and s = "''0badc0de''" and p = example_paste and s' = "''0badc0de''"]
    by blast
  have storage_error:
    "deletePaste (example_env\<lparr>remove_reply := ResolvesError\<rparr>) example_world ''3f2a9c1e''
       = (Json 500 [(''message'', JStr ''Failed to delete file from storage'')],
          example_world, [Select ''3f2a9c1e'', StorageRemove (storage_path example_paste)])"
    using fail(1,2) example_loads
      delete_blob_then_row [where e = "example_env\<lparr>remove_reply := ResolvesError\<rparr>"
        and w = example_world and s = "''3f2a9c1e''" and p = example_paste
        and s' = "''3f2a9c1e''"]
    by blast
  have storage_throws:
    "deletePaste (example_env\<lparr>remove_reply := Rejects\<rparr>) example_world ''3f2a9c1e''
       = (Next (Rejected (StorageRemove (storage_path example_paste))),
          example_world, [Select ''3f2a9c1e'', StorageRemove (storage_path example_paste)])"
    using fail(3,4) example_loads
      delete_blob_then_row [where e = "example_env\<lparr>remove_reply := Rejects\<rparr>"
        and w = example_world and s = "''3f2a9c1e''" and p = example_paste
        and s' = "''3f2a9c1e''"]
    by blast
  have removed: "calls_of (deletePaste example_env example_world ''3f2a9c1e'')
       = [Select ''3f2a9c1e'', StorageRemove (storage_path example_paste), Delete ''3f2a9c1e'']
     \<and> map_of (pastes_bucket (world_of (deletePaste example_env example_world ''3f2a9c1e'')))
        (storage_path example_paste) = None
     \<and> response_of (deletePaste example_env example_world ''3f2a9c1e'')
       = Json 200 [(''message'', JStr ''File deleted successfully'')]
     \<and> pastes_table (world_of (deletePaste example_env example_world ''3f2a9c1e''))
       = filter (\<lambda>r. slug r \<noteq> ''3f2a9c1e'') (pastes_table example_world)"
    using h1 example_loads
      delete_blob_then_row [where e = example_env and w = example_world
        and s = "''3f2a9c1e''" and p = example_paste and s' = "''3f2a9c1e''"]
    by blast
  show ?thesis
    using h1 h2 example_loads unknown storage_error storage_throws removed
    by (simp add: given)
qed

end
